theory Spec2Isabelle
  imports Main "HOL-Library.Word"
begin

section \<open>Large-object middleware (proxyserver/middleware/largeobject.go)\<close>

text \<open>
  A shallow embedding of the SLO/DLO middleware. Go's \<open>int64\<close> is \<open>64 word\<close>
  (arithmetic wraps, comparisons are signed), strings are byte lists, an
  \<open>http.Header\<close> or a \<open>map[string]string\<close> read with a missing key gives the
  empty string and so is a total function into strings.
\<close>

subsection \<open>Basic types\<close>

type_synonym int64 = "64 word"

type_synonym header = "string \<Rightarrow> string"

definition no_header :: header where
  "no_header = (\<lambda>k. [])"

text \<open>\<open>common.HttpRange\<close>: a half-open byte range.\<close>

record HttpRange =
  Start :: int64
  End :: int64

text \<open>
  \<open>common.ParseRange\<close> is not part of the source under study; every function
  that calls it takes the parser as its first argument. It returns either an
  error or a list of ranges (possibly empty).
\<close>

type_synonym range_parser = "string \<Rightarrow> int64 \<Rightarrow> string + HttpRange list"

record segItem =
  siHash :: string
  siLastModified :: string
  siBytes :: int64
  siName :: string
  siContentType :: string
  siRange :: string
  siSubSlo :: bool

record sloPutManifest =
  spmPath :: string
  spmEtag :: string
  spmSizeBytes :: int64
  spmRange :: string

subsection \<open>Segment range, length and hash token\<close>

text \<open>\<open>segItem.makeRange\<close>: the segment's range, or the range of the whole body.\<close>

definition makeRange :: "range_parser \<Rightarrow> segItem \<Rightarrow> HttpRange" where
  "makeRange pr si =
     (if siRange si \<noteq> [] then
        (case pr (''bytes='' @ siRange si) (siBytes si) of
           Inr [r] \<Rightarrow> r
         | _ \<Rightarrow> \<lparr>Start = 0, End = siBytes si\<rparr>)
      else \<lparr>Start = 0, End = siBytes si\<rparr>)"

text \<open>\<open>segItem.segLenHash\<close>: contribution length and hash token.\<close>

definition segLenHash :: "range_parser \<Rightarrow> segItem \<Rightarrow> int64 \<times> string" where
  "segLenHash pr si =
     (if siRange si \<noteq> [] then
        (let segRange = makeRange pr si
         in (End segRange - Start segRange, siHash si @ '':'' @ siRange si @ '';''))
      else (siBytes si, siHash si))"

text \<open>
  \<open>splitSegPath\<close>: trim leading slashes, split at the first slash into two
  non-empty parts.
\<close>

definition splitSegPath :: "string \<Rightarrow> string + (string \<times> string)" where
  "splitSegPath thePath =
     (let s = dropWhile (\<lambda>c. c = CHR ''/'') thePath;
          a = takeWhile (\<lambda>c. c \<noteq> CHR ''/'') s
      in case dropWhile (\<lambda>c. c \<noteq> CHR ''/'') s of
           [] \<Rightarrow> Inl (''invalid segment path: '' @ thePath)
         | _ # b \<Rightarrow>
             if a = [] \<or> b = [] then Inl (''invalid segment path: '' @ thePath)
             else Inr (a, b))"

subsection \<open>Standard-library helpers\<close>

text \<open>Go's integer division truncates towards zero.\<close>

definition go_div :: "int \<Rightarrow> int \<Rightarrow> int" where
  "go_div a b = sgn a * sgn b * (\<bar>a\<bar> div \<bar>b\<bar>)"

definition is_digit :: "char \<Rightarrow> bool" where
  "is_digit c = (c \<in> set ''0123456789'')"

definition digit_val :: "char \<Rightarrow> nat" where
  "digit_val c = of_char c - 48"

definition dec_val :: "string \<Rightarrow> nat" where
  "dec_val s = foldl (\<lambda>n c. 10 * n + digit_val c) 0 s"

datatype NumError = ErrSyntax | ErrRange

text \<open>
  \<open>strconv.ParseInt(s, 10, 64)\<close>: an optional sign and at least one decimal
  digit; a value out of range is reported with the nearest bound.
\<close>

definition ParseInt :: "string \<Rightarrow> int64 \<times> NumError option" where
  "ParseInt s =
     (if s = [] then (0, Some ErrSyntax)
      else
        let neg = (hd s = CHR ''-'');
            ds = (if hd s = CHR ''+'' \<or> hd s = CHR ''-'' then tl s else s)
        in if ds = [] \<or> \<not> list_all is_digit ds then (0, Some ErrSyntax)
           else
             let un = dec_val ds
             in if \<not> neg \<and> 2 ^ 63 \<le> un then (word_of_int (2 ^ 63 - 1), Some ErrRange)
                else if neg \<and> 2 ^ 63 < un then (word_of_int (- (2 ^ 63)), Some ErrRange)
                else (if neg then - word_of_nat un else word_of_nat un, None))"

text \<open>\<open>%d\<close> and \<open>strconv.Itoa\<close>/\<open>FormatInt\<close> in base 10.\<close>

fun dec_digits :: "nat \<Rightarrow> string" where
  "dec_digits n =
     (if n < 10 then [''0123456789'' ! n]
      else dec_digits (n div 10) @ [''0123456789'' ! (n mod 10)])"

definition fmt_int :: "int \<Rightarrow> string" where
  "fmt_int i = (if i < 0 then CHR ''-'' # dec_digits (nat (- i)) else dec_digits (nat i))"

definition FormatInt :: "int64 \<Rightarrow> string" where
  "FormatInt x = fmt_int (sint x)"

text \<open>\<open>strings.Trim(s, "\"")\<close>: strip double quotes at both ends.\<close>

definition trim_quotes :: "string \<Rightarrow> string" where
  "trim_quotes s =
     rev (dropWhile (\<lambda>c. c = CHR 0x22) (rev (dropWhile (\<lambda>c. c = CHR 0x22) s)))"

definition quoted :: "string \<Rightarrow> string" where
  "quoted s = CHR 0x22 # s @ [CHR 0x22]"

subsection \<open>Requests, responses and the collaborators outside this file\<close>

text \<open>The client's request: method, \<open>URL.Path\<close>, query values, headers, body.\<close>

record request =
  reqMethod :: string
  reqPath :: string
  reqQuery :: header
  reqHeader :: header
  reqBody :: string

text \<open>A request built with \<open>http.NewRequest(method, url, body)\<close> plus headers.\<close>

record subreq =
  srMethod :: string
  srURL :: string
  srHeader :: header
  srBody :: string

text \<open>What a handler wrote into a sink: status, headers and the whole body.\<close>

record response =
  rStatus :: int
  rHeader :: header
  rBody :: string

datatype error =
    ErrNewRequest
  | ErrFetchingManifest
  | ErrJSON string
  | ErrInvalidPath string
  | ErrInvalidSloItem string

text \<open>
  What the handlers do to the outside, in order: replies written to the client,
  subrequests issued (\<open>Subrequest\<close>: into a capture or forward sink;
  \<open>SubrequestToClient\<close>: straight into the client's writer), the call of the
  next handler with the client's writer.
\<close>

datatype event =
    SimpleErrorResponse int string
  | StandardResponse int
  | WriteHeader int header
  | Write string
  | Subrequest subreq
  | SubrequestToClient subreq
  | ServeNext request

text \<open>
  The collaborators that live outside this file, as parameters: the proxy
  context's subrequest primitive and the next handler (both run on a backend
  state \<open>'st\<close> that they may change), \<open>common.ParseRange\<close>,
  \<open>common.ParseProxyPath\<close> (a map with the keys account, container, object),
  \<open>common.ParseContentTypeForSlo\<close>, \<open>common.ParseDate\<close> followed by the
  \<open>Format\<close> of the result, \<open>http.NewRequest\<close> (which can fail),
  \<open>encoding/json\<close> (\<open>Unmarshal\<close>, \<open>Marshal\<close>, \<open>NewDecoder\<close>), \<open>crypto/md5\<close> printed with \<open>%x\<close>, and
  \<open>mime.TypeByExtension(filepath.Ext(name))\<close>.
\<close>

text \<open>
  The request body as the streaming JSON decoder of \<open>parsePutSloManifest\<close>
  sees it: the first token, then the outcome of each \<open>Decode\<close> for as long as
  \<open>More\<close> reports another element.
\<close>

datatype json_token = TokenError | TokenDelim char | TokenOther

datatype decode_result = Decoded sloPutManifest | DecodeEOF | DecodeError

record json_stream =
  firstToken :: json_token
  elements :: "decode_result list"

record 'st env =
  parseRange :: range_parser
  parseProxyPath :: "string \<Rightarrow> string + header"
  parseContentTypeForSlo :: "string \<Rightarrow> string"
  formatLastModified :: "string \<Rightarrow> string"
  newRequestOk :: "string \<Rightarrow> string \<Rightarrow> bool"
  subrequest :: "'st \<Rightarrow> subreq \<Rightarrow> response \<times> 'st"
  nextHandler :: "'st \<Rightarrow> request \<Rightarrow> response \<times> 'st"
  unmarshalManifest :: "string \<Rightarrow> segItem list \<times> string option"
  marshalManifest :: "segItem list \<Rightarrow> string"
  marshalPutManifest :: "sloPutManifest list \<Rightarrow> string"
  jsonDecoder :: "string \<Rightarrow> json_stream"
  md5hex :: "string \<Rightarrow> string"
  mimeTypeByExtension :: "string \<Rightarrow> string"

definition segPath :: "string \<Rightarrow> string \<Rightarrow> string \<Rightarrow> string" where
  "segPath account container object = ''/v1/'' @ account @ ''/'' @ container @ ''/'' @ object"

definition newRequest :: "string \<Rightarrow> string \<Rightarrow> string \<Rightarrow> subreq" where
  "newRequest m url b = \<lparr>srMethod = m, srURL = url, srHeader = no_header, srBody = b\<rparr>"

subsection \<open>Fetching the SLO manifest\<close>

text \<open>
  \<open>buildSloManifest\<close>: the manifest and the error (Go returns both), the
  subrequests issued, the new backend state.
\<close>

definition buildSloManifest ::
  "'st env \<Rightarrow> 'st \<Rightarrow> string \<Rightarrow> (segItem list \<times> error option) \<times> event list \<times> 'st" where
  "buildSloManifest env st manPath =
     (let url = manPath @ ''?multipart-manifest=get''
      in if \<not> newRequestOk env ''GET'' url then (([], Some ErrNewRequest), [], st)
         else
           let newReq = newRequest ''GET'' url [];
               (swRefetch, st') = subrequest env st newReq
           in if rStatus swRefetch \<noteq> 200 \<and> rBody swRefetch = []
              then (([], Some ErrFetchingManifest), [Subrequest newReq], st')
              else
                let (manifest, err) = unmarshalManifest env (rBody swRefetch)
                in ((manifest, map_option ErrJSON err), [Subrequest newReq], st'))"

subsection \<open>DELETE cascade\<close>

text \<open>The loop of \<open>deleteAllSegments\<close>; the responses are never looked at.\<close>

fun deleteSegments ::
  "'st env \<Rightarrow> string \<Rightarrow> 'st \<Rightarrow> segItem list \<Rightarrow> error option \<times> event list \<times> 'st" where
  "deleteSegments env account st [] = (None, [], st)"
| "deleteSegments env account st (si # manifest) =
     (case splitSegPath (siName si) of
        Inl e \<Rightarrow> (Some (ErrInvalidSloItem (siName si)), [], st)
      | Inr (container, object) \<Rightarrow>
          let newPath = segPath account container object @ ''?multipart-manifest=delete''
          in if \<not> newRequestOk env ''DELETE'' newPath then (Some ErrNewRequest, [], st)
             else
               let newReq = newRequest ''DELETE'' newPath [];
                   (sw, st') = subrequest env st newReq;
                   (err, evs, st'') = deleteSegments env account st' manifest
               in (err, Subrequest newReq # evs, st''))"

definition deleteAllSegments ::
  "'st env \<Rightarrow> 'st \<Rightarrow> request \<Rightarrow> segItem list \<Rightarrow> error option \<times> event list \<times> 'st" where
  "deleteAllSegments env st req manifest =
     (case parseProxyPath env (reqPath req) of
        Inl e \<Rightarrow> (Some (ErrInvalidPath (reqPath req)), [], st)
      | Inr pathMap \<Rightarrow>
          if pathMap ''account'' = [] then (Some (ErrInvalidPath (reqPath req)), [], st)
          else deleteSegments env (pathMap ''account'') st manifest)"

definition error_text :: "error \<Rightarrow> string" where
  "error_text e =
     (case e of
        ErrNewRequest \<Rightarrow> ''error building subrequest''
      | ErrFetchingManifest \<Rightarrow> ''Error fetching manifest''
      | ErrJSON m \<Rightarrow> m
      | ErrInvalidPath p \<Rightarrow> ''invalid path to slo delete: '' @ p
      | ErrInvalidSloItem n \<Rightarrow> ''invalid slo item: '' @ n)"

definition handleSloDelete :: "'st env \<Rightarrow> 'st \<Rightarrow> request \<Rightarrow> event list \<times> 'st" where
  "handleSloDelete env st req =
     (let bad = ([SimpleErrorResponse 400
                    (''invalid must multipath DELETE to an object path: '' @ reqPath req)], st)
      in case parseProxyPath env (reqPath req) of
           Inl e \<Rightarrow> bad
         | Inr pathMap \<Rightarrow>
             if pathMap ''object'' = [] then bad
             else
               (case buildSloManifest env st (reqPath req) of
                  ((manifest, Some err), evs, st1) \<Rightarrow>
                    (evs @ [SimpleErrorResponse 400
                              (''invalid manifest json: '' @ error_text err)], st1)
                | ((manifest, None), evs, st1) \<Rightarrow>
                    let (derr, devs, st2) = deleteAllSegments env st1 req manifest;
                        reply = (case derr of
                                   Some e \<Rightarrow> [SimpleErrorResponse 400
                                               (''error deleting slo: '' @ error_text e)]
                                 | None \<Rightarrow> []);
                        (resp, st3) = nextHandler env st2 req
                    in (evs @ devs @ reply @ [ServeNext req], st3)))"

subsection \<open>The identify sink and the refetch decision\<close>

text \<open>
  \<open>xloIdentifyWriter\<close>; \<open>wHeader\<close> is the header map of the client's writer
  it wraps.
\<close>

record xloIdentifyWriter =
  wHeader :: header
  funcName :: string
  status :: int
  isSlo :: bool
  isDlo :: bool
  body :: string

definition identifyWriteHeader :: "xloIdentifyWriter \<Rightarrow> int \<Rightarrow> xloIdentifyWriter \<times> event list" where
  "identifyWriteHeader sw st =
     (let sw1 = sw\<lparr>status := st\<rparr>;
          sw2 = (if wHeader sw1 ''X-Object-Manifest'' \<noteq> [] \<and> funcName sw1 \<noteq> ''get''
                 then sw1\<lparr>isDlo := True\<rparr> else sw1);
          sw3 = (if wHeader sw2 ''X-Static-Large-Object'' = ''True''
                 then sw2\<lparr>isSlo := True\<rparr> else sw2)
      in if \<not> isSlo sw3 \<and> \<not> isDlo sw3 then (sw3, [WriteHeader st (wHeader sw3)])
         else (sw3\<lparr>body := []\<rparr>, []))"

definition identifyWrite :: "xloIdentifyWriter \<Rightarrow> string \<Rightarrow> xloIdentifyWriter \<times> event list" where
  "identifyWrite sw b =
     (if isDlo sw then (sw, [])
      else if isSlo sw then (sw\<lparr>body := body sw @ b\<rparr>, [])
      else (sw, [Write b]))"

text \<open>
  The regular expression \<open>bytes (\d+)-(\d+)/(\d+)$\<close>: \<open>match_here\<close> matches it
  at the start of its argument (every \<open>\d+\<close> is followed by a character that
  is not a digit, so it takes all the digits there are), and
  \<open>FindStringSubmatch\<close> returns the three groups of the leftmost match.
\<close>

definition match_here :: "string \<Rightarrow> (string \<times> string \<times> string) option" where
  "match_here s =
     (if take 6 s \<noteq> ''bytes '' then None
      else
        let t = drop 6 s; a = takeWhile is_digit t
        in if a = [] then None
           else
             (case dropWhile is_digit t of
                c1 # t2 \<Rightarrow>
                  if c1 \<noteq> CHR ''-'' then None
                  else
                    let b = takeWhile is_digit t2
                    in if b = [] then None
                       else
                         (case dropWhile is_digit t2 of
                            c2 # t3 \<Rightarrow>
                              if c2 \<noteq> CHR ''/'' then None
                              else if t3 = [] \<or> \<not> list_all is_digit t3 then None
                              else Some (a, b, t3)
                          | [] \<Rightarrow> None)
              | [] \<Rightarrow> None))"

fun FindStringSubmatch :: "string \<Rightarrow> (string \<times> string \<times> string) option" where
  "FindStringSubmatch [] = match_here []"
| "FindStringSubmatch (c # s) =
     (case match_here (c # s) of
        Some r \<Rightarrow> Some r
      | None \<Rightarrow> FindStringSubmatch s)"

definition needToRefetchManifest :: "xloIdentifyWriter \<Rightarrow> request \<Rightarrow> bool" where
  "needToRefetchManifest sw req =
     (if reqMethod req = ''HEAD'' then True
      else if reqHeader req ''Range'' \<noteq> [] \<and> status sw = 416 then True
      else if reqHeader req ''Range'' \<noteq> [] \<and> (status sw = 200 \<or> status sw = 206) then
        (case FindStringSubmatch (wHeader sw ''Content-Range'') of
           None \<Rightarrow> True
         | Some (r1, r2, r3) \<Rightarrow>
             let end = fst (ParseInt r2);
                 length = fst (ParseInt r3);
                 got_everything = (r1 = ''0'' \<and> end = length - 1)
             in \<not> got_everything)
      else False)"

subsection \<open>Feeding the segments to the client\<close>

definition rangeHeader :: "int64 \<Rightarrow> int64 \<Rightarrow> string" where
  "rangeHeader subReqStart subReqEnd =
     ''bytes='' @ FormatInt subReqStart @ ''-'' @ FormatInt (subReqEnd - 1)"

definition segmentRequest :: "string \<Rightarrow> int64 \<Rightarrow> int64 \<Rightarrow> subreq" where
  "segmentRequest newPath subReqStart subReqEnd =
     (newRequest ''GET'' newPath [])
       \<lparr>srHeader := no_header(''Range'' := rangeHeader subReqStart subReqEnd)\<rparr>"

text \<open>
  The loop of \<open>feedOutSegments\<close>. The forward sink hands every byte of a
  subrequest's body to the client, whatever its status.
\<close>

fun feedSegments ::
  "'st env \<Rightarrow> string \<Rightarrow> 'st \<Rightarrow> HttpRange \<Rightarrow> segItem list \<Rightarrow> event list \<times> 'st" where
  "feedSegments env account st reqRange [] = ([], st)"
| "feedSegments env account st reqRange (si # manifest) =
     (let segLen = fst (segLenHash (parseRange env) si)
      in if segLen \<le>s Start reqRange then
           (let reqRange' = \<lparr>Start = Start reqRange - segLen, End = End reqRange - segLen\<rparr>
            in if End reqRange' <s 0 then ([], st)
               else feedSegments env account st reqRange' manifest)
         else if End reqRange <s 0 then ([], st)
         else
           let segmentRange = makeRange (parseRange env) si;
               subReqStart = (if 0 <s Start reqRange
                              then Start segmentRange + Start reqRange
                              else Start segmentRange);
               subReqEnd = (if Start segmentRange + End reqRange <s End segmentRange
                            then Start segmentRange + End reqRange
                            else End segmentRange)
           in if subReqEnd \<le>s 0 then feedSegments env account st reqRange manifest
              else
                (case splitSegPath (siName si) of
                   Inl e \<Rightarrow> ([], st)
                 | Inr (container, object) \<Rightarrow>
                     let newPath = segPath account container object
                     in if \<not> newRequestOk env ''GET'' newPath then ([], st)
                        else
                          let newReq = segmentRequest newPath subReqStart subReqEnd;
                              (resp, st') = subrequest env st newReq
                          in if go_div (rStatus resp) 100 \<noteq> 2
                             then ([Subrequest newReq, Write (rBody resp)], st')
                             else
                               let (evs, st'') =
                                     feedSegments env account st'
                                       \<lparr>Start = Start reqRange - segLen,
                                        End = End reqRange - segLen\<rparr> manifest
                               in (Subrequest newReq # Write (rBody resp) # evs, st'')))"

definition feedOutSegments ::
  "'st env \<Rightarrow> 'st \<Rightarrow> request \<Rightarrow> segItem list \<Rightarrow> HttpRange \<Rightarrow> event list \<times> 'st" where
  "feedOutSegments env st req manifest reqRange =
     (case parseProxyPath env (reqPath req) of
        Inl e \<Rightarrow> ([], st)
      | Inr pathMap \<Rightarrow>
          if pathMap ''account'' = [] then ([], st)
          else feedSegments env (pathMap ''account'') st reqRange manifest)"

text \<open>
  The loop of \<open>byteFeeder\<close> that adds up the lengths and writes the hash tokens
  into the MD5 state; the state is the bytes written so far.
\<close>

fun genEtagLen :: "range_parser \<Rightarrow> segItem list \<Rightarrow> int64 \<times> string \<Rightarrow> int64 \<times> string" where
  "genEtagLen pr [] acc = acc"
| "genEtagLen pr (si # manifest) (xloContentLengthGen, written) =
     (let (segLen, segHash) = segLenHash pr si
      in genEtagLen pr manifest (xloContentLengthGen + segLen, written @ segHash))"

definition byteFeeder ::
  "'st env \<Rightarrow> 'st \<Rightarrow> xloIdentifyWriter \<Rightarrow> request \<Rightarrow> string \<Rightarrow> string \<Rightarrow> segItem list
     \<Rightarrow> event list \<times> 'st" where
  "byteFeeder env st sw req xloEtag0 xloContentLengthStr0 manifest =
     (let (xloContentLength0, xloContentLengthStr) =
            (if xloContentLengthStr0 \<noteq> [] then
               (case ParseInt xloContentLengthStr0 of
                  (cl, None) \<Rightarrow> (cl, xloContentLengthStr0)
                | (cl, Some e) \<Rightarrow> (0, []))
             else (0, xloContentLengthStr0));
          (xloEtag, xloContentLength1) =
            (if xloEtag0 = [] \<or> xloContentLengthStr = [] then
               (let (xloContentLengthGen, written) = genEtagLen (parseRange env) manifest (0, [])
                in (md5hex env written, xloContentLengthGen))
             else (xloEtag0, xloContentLength0));
          reqRangeStr = reqHeader req ''Range'';
          serve = (\<lambda>xloContentLength reqRange.
            let hdr = (wHeader sw)
                  (''Content-Length'' := FormatInt xloContentLength,
                   ''Etag'' := quoted xloEtag);
                (evs, st') = feedOutSegments env st req manifest reqRange
            in (WriteHeader 200 hdr # evs, st'))
      in if reqRangeStr \<noteq> [] then
           (case parseRange env reqRangeStr xloContentLength1 of
              Inr ranges \<Rightarrow>
                (case ranges of
                   [reqRange] \<Rightarrow> serve (0 + (End reqRange - Start reqRange)) reqRange
                 | _ \<Rightarrow> ([SimpleErrorResponse 400 ''invalid multi range''], st))
            | Inl e \<Rightarrow> ([SimpleErrorResponse 400 ''invalid range''], st))
         else serve xloContentLength1 \<lparr>Start = 0, End = xloContentLength1\<rparr>)"

subsection \<open>GET and HEAD\<close>

definition buildDloManifest ::
  "'st env \<Rightarrow> 'st \<Rightarrow> string \<Rightarrow> string \<Rightarrow> string
     \<Rightarrow> (segItem list \<times> error option) \<times> event list \<times> 'st" where
  "buildDloManifest env st account container prefix =
     (let url = ''/v1/'' @ account @ ''/'' @ container @ ''?format=json&prefix='' @ prefix
      in if \<not> newRequestOk env ''GET'' url then (([], Some ErrNewRequest), [], st)
         else
           let newReq = newRequest ''GET'' url [];
               (swRefetch, st') = subrequest env st newReq
           in if rStatus swRefetch \<noteq> 200 \<and> rBody swRefetch = []
              then (([], Some ErrFetchingManifest), [Subrequest newReq], st')
              else
                (case unmarshalManifest env (rBody swRefetch) of
                   (manifest, Some e) \<Rightarrow> ((manifest, Some (ErrJSON e)), [Subrequest newReq], st')
                 | (manifest, None) \<Rightarrow>
                     ((map (\<lambda>si. si\<lparr>siName := container @ ''/'' @ siName si\<rparr>) manifest, None),
                      [Subrequest newReq], st')))"

definition convertManifest :: "'st env \<Rightarrow> string \<Rightarrow> string + string" where
  "convertManifest env manifestBytes =
     (case unmarshalManifest env manifestBytes of
        (savedManifest, Some e) \<Rightarrow> Inl e
      | (savedManifest, None) \<Rightarrow>
          Inr (marshalPutManifest env
                 (map (\<lambda>si. \<lparr>spmPath = siName si, spmEtag = siHash si,
                              spmSizeBytes = siBytes si, spmRange = siRange si\<rparr>)
                    savedManifest)))"

definition handleDloGet ::
  "'st env \<Rightarrow> 'st \<Rightarrow> xloIdentifyWriter \<Rightarrow> request \<Rightarrow> event list \<times> 'st" where
  "handleDloGet env st sw req =
     (let bad = ([SimpleErrorResponse 400
                    (''invalid must multipath PUT to an object path: '' @ reqPath req)], st)
      in case parseProxyPath env (reqPath req) of
           Inl e \<Rightarrow> bad
         | Inr pathMap \<Rightarrow>
             if pathMap ''object'' = [] then bad
             else
               (case splitSegPath (wHeader sw ''X-Object-Manifest'') of
                  Inl e \<Rightarrow> ([SimpleErrorResponse 400 ''invalid dlo manifest path''], st)
                | Inr (container, prefix) \<Rightarrow>
                    (case buildDloManifest env st (pathMap ''account'') container prefix of
                       ((manifest, Some err), evs, st1) \<Rightarrow>
                         (evs @ [SimpleErrorResponse 400
                                   (''can not build dlo manifest at: '' @ container @ ''?'' @ prefix)],
                          st1)
                     | ((manifest, None), evs, st1) \<Rightarrow>
                         let (evs', st2) = byteFeeder env st1 sw req [] [] manifest
                         in (evs @ evs', st2))))"

definition handleSloGet ::
  "'st env \<Rightarrow> 'st \<Rightarrow> xloIdentifyWriter \<Rightarrow> request \<Rightarrow> event list \<times> 'st" where
  "handleSloGet env st sw0 req =
     (let contentType = parseContentTypeForSlo env (wHeader sw0 ''Content-Type'');
          sw = sw0\<lparr>wHeader := (wHeader sw0)(''Content-Type'' := contentType)\<rparr>
      in if funcName sw = ''get'' then
           (let reply = (\<lambda>hdr manifestBytes.
                  ([WriteHeader 200
                      (hdr(''Content-Length'' := fmt_int (int (length manifestBytes)),
                           ''Etag'' := trim_quotes (hdr ''Etag''))),
                    Write manifestBytes], st))
            in if reqQuery req ''format'' = ''raw'' then
                 (case convertManifest env (body sw) of
                    Inl e \<Rightarrow> ([SimpleErrorResponse 400 ''invalid slo manifest''], st)
                  | Inr manifestBytes \<Rightarrow> reply (wHeader sw) manifestBytes)
               else reply ((wHeader sw)(''Content-Type'' := ''application/json; charset=utf-8''))
                      (body sw))
         else
           let sloEtag = wHeader sw ''X-Object-Sysmeta-Slo-Etag'';
               savedContentLength = wHeader sw ''X-Object-Sysmeta-Slo-Size'';
               isConditional =
                 ((reqHeader req ''If-Match'' \<noteq> [] \<or> reqHeader req ''If-None-Match'' \<noteq> [])
                  \<and> (status sw = 304 \<or> status sw = 412))
           in if (reqMethod req = ''HEAD'' \<or> isConditional)
                 \<and> (sloEtag \<noteq> [] \<or> savedContentLength \<noteq> []) then
                ([WriteHeader (status sw)
                    ((wHeader sw)(''Content-Length'' := savedContentLength,
                                  ''Etag'' := quoted sloEtag))], st)
              else
                let ((manifest, err), evs, st1) =
                      (if needToRefetchManifest sw req
                       then buildSloManifest env st (reqPath req)
                       else (case unmarshalManifest env (body sw) of
                               (m, e) \<Rightarrow> ((m, map_option ErrJSON e), [], st)));
                    reply = (case err of
                               Some e \<Rightarrow> [SimpleErrorResponse 400 ''invalid slo manifest'']
                             | None \<Rightarrow> []);
                    (evs', st2) = byteFeeder env st1 sw req sloEtag savedContentLength manifest
                in (evs @ reply @ evs', st2))"

subsection \<open>PUT: parsing and validating the client's manifest\<close>

definition maxManifestLen :: nat where
  "maxManifestLen = 1000"

definition index_error :: "nat \<Rightarrow> string \<Rightarrow> string" where
  "index_error i msg = ''Index '' @ fmt_int (int i) @ '': '' @ msg"

text \<open>The loop of \<open>parsePutSloManifest\<close>, with its counter \<open>i\<close>.\<close>

fun parseItems ::
  "nat \<Rightarrow> decode_result list \<Rightarrow> sloPutManifest list \<Rightarrow> string list
     \<Rightarrow> sloPutManifest list \<times> string list" where
  "parseItems i [] manifest errs = (manifest, errs)"
| "parseItems i (d # ds) manifest errs =
     (if maxManifestLen < i
      then (manifest, errs @ [''Invalid manifest json- too many segments''])
      else
        (case d of
           DecodeEOF \<Rightarrow> (manifest, errs)
         | DecodeError \<Rightarrow> (manifest, errs @ [''Invalid manifest json- invalid format.''])
         | Decoded manItem \<Rightarrow>
             if CHR ''/'' \<notin> set (dropWhile (\<lambda>c. c = CHR ''/'') (spmPath manItem)) then
               parseItems (Suc i) ds manifest
                 (errs @ [index_error i
                    (''path does not refer to an object. ''
                     @ ''Path must be of the form /container/object.'')])
             else if spmSizeBytes manItem <s 0 then
               parseItems (Suc i) ds manifest
                 (errs @ [index_error i ''too small; each segment must be at least 1 byte.''])
             else if spmRange manItem \<noteq> []
                     \<and> length (filter (\<lambda>c. c = CHR ''-'') (spmRange manItem)) \<noteq> 1 then
               parseItems (Suc i) ds manifest
                 (errs @ [index_error i ''invalid or multiple ranges (only one allowed)''])
             else parseItems (Suc i) ds (manifest @ [manItem]) errs))"

definition parsePutSloManifest :: "json_stream \<Rightarrow> sloPutManifest list \<times> string list" where
  "parsePutSloManifest stream =
     (case firstToken stream of
        TokenDelim r \<Rightarrow>
          if r \<noteq> CHR ''['' then ([], [''Invalid manifest json- not a list.''])
          else parseItems 0 (elements stream) [] []
      | _ \<Rightarrow> ([], [''Invalid manifest json- not a list.'']))"

text \<open>The local variables of the validation loop of \<open>handleSloPut\<close>.\<close>

record putState =
  toPutManifest :: "segItem list"
  totalSize :: int64
  sloEtag :: string
  errs :: "string list"

definition addErr :: "putState \<Rightarrow> string \<Rightarrow> putState" where
  "addErr ps msg = ps\<lparr>errs := errs ps @ [msg]\<rparr>"

text \<open>How one round of the loop ends: \<open>continue\<close>/next round, \<open>break\<close>, \<open>return\<close>.\<close>

datatype loop_step = Continue putState | Break putState | Return

text \<open>One round of the loop; the counter \<open>i\<close> of the messages stays 0.\<close>

definition putStep ::
  "'st env \<Rightarrow> header \<Rightarrow> 'st \<Rightarrow> sloPutManifest \<Rightarrow> putState \<Rightarrow> loop_step \<times> event list \<times> 'st" where
  "putStep env pathMap st spm ps =
     (case splitSegPath (spmPath spm) of
        Inl e \<Rightarrow> (Break (addErr ps (''invalid manifest path: '' @ spmPath spm)), [], st)
      | Inr (spmContainer, spmObject) \<Rightarrow>
          if spmContainer = pathMap ''container'' \<and> spmObject = pathMap ''object'' then
            (Break (addErr ps (''manifest cannot reference itself: '' @ spmPath spm)), [], st)
          else
            let newPath = segPath (pathMap ''account'') spmContainer spmObject
            in if \<not> newRequestOk env ''HEAD'' newPath then (Return, [], st)
               else
                 let newReq = newRequest ''HEAD'' newPath [];
                     (pw, st') = subrequest env st newReq;
                     continue = (\<lambda>ps'. (Continue ps', [Subrequest newReq], st'))
                 in if rStatus pw \<noteq> 200 then
                      continue (addErr ps (fmt_int (rStatus pw) @ '' response on segment: '' @ newPath))
                    else
                      (case ParseInt (rHeader pw ''Content-Length'') of
                         (cl, Some e) \<Rightarrow>
                           continue (addErr ps (''bad content-length on segment: '' @ newPath))
                       | (contentLength, None) \<Rightarrow>
                           let segEtag = trim_quotes (rHeader pw ''Etag'');
                               isSlo = (rHeader pw ''X-Static-Large-Object'' = ''True'')
                           in if 0 <s spmSizeBytes spm \<and> contentLength \<noteq> spmSizeBytes spm then
                                continue (addErr ps
                                  (''Unmatching ContentLength (manifest ''
                                   @ FormatInt (spmSizeBytes spm) @ '') != (segment actual ''
                                   @ FormatInt contentLength @ '') response on segment: '' @ newPath))
                              else
                                (case (if spmRange spm \<noteq> [] then
                                         (case parseRange env (''bytes='' @ spmRange spm) contentLength of
                                            Inl e \<Rightarrow> Inl (index_error 0 ''invalid range'')
                                          | Inr [r] \<Rightarrow>
                                              Inr (End r - Start r,
                                                   FormatInt (Start r) @ ''-'' @ FormatInt (End r - 1))
                                          | Inr ranges \<Rightarrow>
                                              Inl (index_error 0 '' multiple ranges (only one allowed)''))
                                       else Inr (contentLength, spmRange spm)) of
                                   Inl msg \<Rightarrow> continue (addErr ps msg)
                                 | Inr (segmentSize, parsedRange) \<Rightarrow>
                                     let ps1 = ps\<lparr>totalSize := totalSize ps + segmentSize\<rparr>
                                     in if spmEtag spm \<noteq> [] \<and> spmEtag spm \<noteq> segEtag then
                                          continue (addErr ps1
                                            (''Etag Mismatch on '' @ spmPath spm @ '': ''
                                             @ spmEtag spm @ '' != '' @ segEtag))
                                        else
                                          let newSi = \<lparr>siHash = segEtag,
                                                 siLastModified =
                                                   formatLastModified env (rHeader pw ''Last-Modified''),
                                                 siBytes = contentLength,
                                                 siName = spmPath spm,
                                                 siContentType =
                                                   parseContentTypeForSlo env (rHeader pw ''Content-Type''),
                                                 siRange = parsedRange,
                                                 siSubSlo = isSlo\<rparr>;
                                              newSiHash = snd (segLenHash (parseRange env) newSi)
                                          in continue
                                               (ps1\<lparr>sloEtag := sloEtag ps1 @ newSiHash,
                                                    toPutManifest := toPutManifest ps1 @ [newSi]\<rparr>))))"

text \<open>
  The loop: \<open>None\<close> when a round returned from the handler, otherwise the
  variables after the loop.
\<close>

fun putLoop ::
  "'st env \<Rightarrow> header \<Rightarrow> 'st \<Rightarrow> sloPutManifest list \<Rightarrow> putState
     \<Rightarrow> putState option \<times> event list \<times> 'st" where
  "putLoop env pathMap st [] ps = (Some ps, [], st)"
| "putLoop env pathMap st (spm # manifest) ps =
     (case putStep env pathMap st spm ps of
        (Return, evs, st') \<Rightarrow> (None, evs, st')
      | (Break ps', evs, st') \<Rightarrow> (Some ps', evs, st')
      | (Continue ps', evs, st') \<Rightarrow>
          let (r, evs', st'') = putLoop env pathMap st' manifest ps'
          in (r, evs @ evs', st''))"

subsection \<open>PUT: writing the manifest\<close>

text \<open>\<open>strings.Join(errs, "\n")\<close>.\<close>

fun join_lines :: "string list \<Rightarrow> string" where
  "join_lines [] = []"
| "join_lines [x] = x"
| "join_lines (x # y # ys) = x @ [CHR 0x0A] @ join_lines (y # ys)"

definition putRequest :: "string \<Rightarrow> string \<Rightarrow> string \<Rightarrow> int64 \<Rightarrow> string \<Rightarrow> string \<Rightarrow> subreq" where
  "putRequest path contentType xloEtagGen tsize bodyEtag newBody =
     (newRequest ''PUT'' path newBody)
       \<lparr>srHeader := no_header
          (''Content-Type'' := contentType @ '';swift_bytes='' @ FormatInt tsize,
           ''X-Static-Large-Object'' := ''True'',
           ''X-Object-Sysmeta-Slo-Etag'' := xloEtagGen,
           ''X-Object-Sysmeta-Slo-Size'' := FormatInt tsize,
           ''Etag'' := bodyEtag,
           ''Content-Length'' := fmt_int (int (length newBody)))\<rparr>"

definition handleSloPut :: "'st env \<Rightarrow> 'st \<Rightarrow> request \<Rightarrow> event list \<times> 'st" where
  "handleSloPut env st req =
     (let bad = ([SimpleErrorResponse 400
                    (''invalid must multipath PUT to an object path: '' @ reqPath req)], st)
      in case parseProxyPath env (reqPath req) of
           Inl e \<Rightarrow> bad
         | Inr pathMap \<Rightarrow>
             if pathMap ''object'' = [] then bad
             else if reqHeader req ''Content-Length'' = []
                     \<and> reqHeader req ''Transfer-Encoding'' \<noteq> ''chunked'' then
               ([StandardResponse 411], st)
             else if reqHeader req ''X-Copy-From'' \<noteq> [] then
               ([SimpleErrorResponse 405 ''Multipart Manifest PUTs cannot be COPY requests''], st)
             else
               let (manifest, errs0) = parsePutSloManifest (jsonDecoder env (reqBody req))
               in if errs0 \<noteq> [] then ([SimpleErrorResponse 400 (join_lines errs0)], st)
                  else
                    (case putLoop env pathMap st manifest
                            \<lparr>toPutManifest = [], totalSize = 0, sloEtag = [], errs = errs0\<rparr> of
                       (None, evs, st1) \<Rightarrow> (evs, st1)
                     | (Some ps, evs, st1) \<Rightarrow>
                         if errs ps \<noteq> [] then
                           (evs @ [SimpleErrorResponse 400 (join_lines (errs ps))], st1)
                         else
                           let xloEtagGen = md5hex env (sloEtag ps);
                               reqEtag = reqHeader req ''Etag'';
                               etagReply =
                                 (if reqEtag \<noteq> [] \<and> trim_quotes reqEtag \<noteq> xloEtagGen
                                  then [SimpleErrorResponse 422 ''Invalid Etag''] else []);
                               contentType =
                                 (if reqHeader req ''Content-Type'' \<noteq> []
                                  then reqHeader req ''Content-Type''
                                  else if mimeTypeByExtension env (pathMap ''object'') = []
                                  then ''application/octet-stream''
                                  else mimeTypeByExtension env (pathMap ''object''));
                               newBody = marshalManifest env (toPutManifest ps)
                           in if \<not> newRequestOk env ''PUT'' (reqPath req) then
                                (evs @ etagReply @ [StandardResponse 500], st1)
                              else
                                let putReq = putRequest (reqPath req) contentType xloEtagGen
                                               (totalSize ps) (md5hex env newBody) newBody;
                                    (resp, st2) = subrequest env st1 putReq
                                in (evs @ etagReply @ [SubrequestToClient putReq], st2)))"

subsection \<open>The dispatcher\<close>

definition updateEtagIsAt :: "request \<Rightarrow> string \<Rightarrow> request" where
  "updateEtagIsAt req etagLoc =
     (let curHeader = reqHeader req ''X-Backend-Etag-Is-At''
      in req\<lparr>reqHeader := (reqHeader req)
               (''X-Backend-Etag-Is-At'' :=
                  (if curHeader = [] then etagLoc else curHeader @ '','' @ etagLoc))\<rparr>)"

definition isValidDloHeader :: "string \<Rightarrow> bool" where
  "isValidDloHeader manifest =
     (take 1 manifest \<noteq> ''/'' \<and> CHR ''?'' \<notin> set manifest \<and> CHR ''&'' \<notin> set manifest
      \<and> (case dropWhile (\<lambda>c. c \<noteq> CHR ''/'') manifest of
            [] \<Rightarrow> False
          | c # m1 \<Rightarrow> takeWhile (\<lambda>c. c \<noteq> CHR ''/'') manifest \<noteq> [] \<and> m1 \<noteq> []))"

text \<open>
  \<open>ServeHTTP\<close>. On GET and HEAD the next handler writes into the identify
  sink: its headers, then \<open>WriteHeader\<close>, then the body.
\<close>

definition ServeHTTP :: "'st env \<Rightarrow> 'st \<Rightarrow> request \<Rightarrow> event list \<times> 'st" where
  "ServeHTTP env st req =
     (let xloFuncName = reqQuery req ''multipart-manifest'';
          dlo = reqHeader req ''X-Object-Manifest''
      in if reqMethod req = ''PUT'' \<and> dlo \<noteq> [] \<and> \<not> isValidDloHeader dlo then
           ([SimpleErrorResponse 400
               ''X-Object-Manifest must be in the format container/prefix''], st)
         else if reqMethod req = ''PUT'' \<and> dlo \<noteq> [] \<and> xloFuncName = ''put'' then
           ([SimpleErrorResponse 400 ''Cannot be both SLO and DLO''], st)
         else if reqMethod req = ''PUT'' \<and> xloFuncName = ''put'' then handleSloPut env st req
         else if reqMethod req = ''DELETE'' \<and> xloFuncName = ''delete'' then
           handleSloDelete env st req
         else if reqMethod req = ''GET'' \<or> reqMethod req = ''HEAD'' then
           (let req1 = (if xloFuncName \<noteq> ''get''
                        then updateEtagIsAt req ''X-Object-Sysmeta-Slo-Etag'' else req);
                (resp, st1) = nextHandler env st req1;
                sw0 = \<lparr>wHeader = rHeader resp, funcName = xloFuncName, status = 0,
                       isSlo = False, isDlo = False, body = []\<rparr>;
                (sw1, evs1) = identifyWriteHeader sw0 (rStatus resp);
                (sw2, evs2) = identifyWrite sw1 (rBody resp)
            in if isSlo sw2 then
                 (let (evs, st2) = handleSloGet env st1 sw2 req1 in (evs1 @ evs2 @ evs, st2))
               else if isDlo sw2 then
                 (let (evs, st2) = handleDloGet env st1 sw2 req1 in (evs1 @ evs2 @ evs, st2))
               else (evs1 @ evs2, st1))
         else
           (let (resp, st1) = nextHandler env st req in ([ServeNext req], st1)))"

subsection \<open>The refetch table as the specification words it\<close>

text \<open>
  The specification's \<open>Content-Range\<close> reply: the header is \<open>bytes A-B/C\<close>
  with decimal numbers, and any other shape counts as malformed.
\<close>

definition spec_content_range :: "string \<Rightarrow> (nat \<times> nat \<times> nat) option" where
  "spec_content_range h =
     (case h of
        CHR ''b'' # CHR ''y'' # CHR ''t'' # CHR ''e'' # CHR ''s'' # CHR '' '' # t \<Rightarrow>
          (let a = takeWhile is_digit t;
               t1 = dropWhile is_digit t;
               b = takeWhile is_digit (drop 1 t1);
               t2 = dropWhile is_digit (drop 1 t1);
               c = drop 1 t2
           in if a \<noteq> [] \<and> take 1 t1 = ''-'' \<and> b \<noteq> [] \<and> take 1 t2 = ''/''
                 \<and> c \<noteq> [] \<and> list_all is_digit c
              then Some (dec_val a, dec_val b, dec_val c) else None)
      | _ \<Rightarrow> None)"

text \<open>
  The specification's table: HEAD; a range and 416; a range, 200 or 206 and a
  \<open>Content-Range\<close> that is absent or malformed; a range, 200 or 206 and a
  \<open>Content-Range\<close> that is not \<open>bytes 0-(C-1)/C\<close>; otherwise no refetch.
\<close>

definition spec_needToRefetch :: "xloIdentifyWriter \<Rightarrow> request \<Rightarrow> bool" where
  "spec_needToRefetch sw req =
     (if reqMethod req = ''HEAD'' then True
      else if reqHeader req ''Range'' \<noteq> [] \<and> status sw = 416 then True
      else if reqHeader req ''Range'' \<noteq> [] \<and> (status sw = 200 \<or> status sw = 206) then
        (case spec_content_range (wHeader sw ''Content-Range'') of
           None \<Rightarrow> True
         | Some (a, b, c) \<Rightarrow> \<not> (a = 0 \<and> b + 1 = c))
      else False)"

subsection \<open>Contribution length and hash token as the specification words them\<close>

text \<open>
  A segment without a range contributes its \<open>bytes\<close> and the token
  \<open>hash\<close>; a segment whose range parses to \<open>r\<close> contributes
  \<open>r.end - r.start\<close> and the token \<open><hash>:<range>;\<close>.
\<close>

definition spec_contribution :: "range_parser \<Rightarrow> segItem \<Rightarrow> (int64 \<times> string) option" where
  "spec_contribution pr si =
     (if siRange si = [] then Some (siBytes si, siHash si)
      else
        (case pr (''bytes='' @ siRange si) (siBytes si) of
           Inr [r] \<Rightarrow> Some (End r - Start r, siHash si @ '':'' @ siRange si @ '';'')
         | _ \<Rightarrow> None))"

definition hash_token :: "segItem \<Rightarrow> string" where
  "hash_token si =
     (if siRange si = [] then siHash si else siHash si @ '':'' @ siRange si @ '';'')"

text \<open>
  On PUT the range is the client's, parsed against the length that the
  segment's HEAD reported, and the persisted segment carries it normalised:
  \<open>put_validated pr spm si n\<close> says that the client's entry \<open>spm\<close> was
  persisted as \<open>si\<close> and contributes \<open>n\<close> bytes.
\<close>

definition put_validated :: "range_parser \<Rightarrow> sloPutManifest \<Rightarrow> segItem \<Rightarrow> int64 \<Rightarrow> bool" where
  "put_validated pr spm si n \<longleftrightarrow>
     siName si = spmPath spm \<and>
     (if spmRange spm = [] then siRange si = [] \<and> n = siBytes si
      else (\<exists>r. pr (''bytes='' @ spmRange spm) (siBytes si) = Inr [r]
               \<and> n = End r - Start r
               \<and> siRange si = FormatInt (Start r) @ ''-'' @ FormatInt (End r - 1)))"

subsection \<open>The bytes of a manifest and the subrequests of a range\<close>








text \<open>The bytes that a trace writes to the client.\<close>

fun written :: "event list \<Rightarrow> string" where
  "written [] = []"
| "written (Write b # evs) = b @ written evs"
| "written (ev # evs) = written evs"

section \<open>A concrete environment for evaluating the model\<close>

text \<open>
  Modelled from the spec: \<open>common.ParseProxyPath\<close> is not part of the source.
  Paths have the form \<open>/v1/<account>[/<container>[/<object>]]\<close>; the parts
  that are missing are empty.
\<close>

definition example_parseProxyPath :: "string \<Rightarrow> string + header" where
  "example_parseProxyPath p =
     (if take 4 p \<noteq> ''/v1/'' then Inl ''invalid path''
      else
        let r = drop 4 p;
            r1 = drop 1 (dropWhile (\<lambda>c. c \<noteq> CHR ''/'') r)
        in Inr (no_header
                  (''account'' := takeWhile (\<lambda>c. c \<noteq> CHR ''/'') r,
                   ''container'' := takeWhile (\<lambda>c. c \<noteq> CHR ''/'') r1,
                   ''object'' := drop 1 (dropWhile (\<lambda>c. c \<noteq> CHR ''/'') r1))))"

text \<open>
  Modelled from the spec: \<open>common.ParseRange\<close> is not part of the source. Only
  the wire form \<open>bytes=A-B\<close> is read here: inclusive, normalised to a half-open
  range and cut at the size; a header without the \<open>bytes=\<close> prefix gives no
  range, anything else is an error.
\<close>

definition example_parseRange :: range_parser where
  "example_parseRange h fileSize =
     (if take 6 h \<noteq> ''bytes='' then Inr []
      else
        let t = drop 6 h; a = takeWhile is_digit t
        in case dropWhile is_digit t of
             c # b \<Rightarrow>
               if c \<noteq> CHR ''-'' \<or> a = [] \<or> b = [] \<or> \<not> list_all is_digit b
               then Inl ''invalid range''
               else if dec_val b < dec_val a \<or> sint fileSize \<le> int (dec_val a)
               then Inl ''unsatisfiable range''
               else Inr [\<lparr>Start = word_of_nat (dec_val a),
                          End = (if int (dec_val b) + 1 < sint fileSize
                                 then word_of_nat (dec_val b) + 1 else fileSize)\<rparr>]
           | [] \<Rightarrow> Inl ''invalid range'')"

text \<open>
  A backend that is a list of objects (path, etag, content). GET honours a
  \<open>Range\<close> header, HEAD reports length and etag, DELETE removes the object and
  PUT stores the body; a query string is ignored. The next handler answers
  204 and, on DELETE, removes the object at the request's path.
\<close>

type_synonym store = "(string \<times> string \<times> string) list"

definition example_subrequest :: "store \<Rightarrow> subreq \<Rightarrow> response \<times> store" where
  "example_subrequest st sr =
     (let path = takeWhile (\<lambda>c. c \<noteq> CHR ''?'') (srURL sr);
          notFound = \<lparr>rStatus = 404, rHeader = no_header, rBody = []\<rparr>
      in if srMethod sr = ''PUT'' then
           (\<lparr>rStatus = 201, rHeader = no_header, rBody = []\<rparr>,
            (path, srHeader sr ''Etag'', srBody sr) # filter (\<lambda>e. fst e \<noteq> path) st)
         else
           (case map_of st path of
              None \<Rightarrow> (notFound, st)
            | Some (etag, content) \<Rightarrow>
                let hdr = no_header(''Etag'' := etag,
                                    ''Content-Length'' := fmt_int (int (length content)))
                in if srMethod sr = ''DELETE'' then
                     (\<lparr>rStatus = 204, rHeader = no_header, rBody = []\<rparr>,
                      filter (\<lambda>e. fst e \<noteq> path) st)
                   else if srMethod sr = ''HEAD'' then
                     (\<lparr>rStatus = 200, rHeader = hdr, rBody = []\<rparr>, st)
                   else if srHeader sr ''Range'' = [] then
                     (\<lparr>rStatus = 200, rHeader = hdr, rBody = content\<rparr>, st)
                   else
                     (case example_parseRange (srHeader sr ''Range'')
                             (word_of_nat (length content)) of
                        Inr [r] \<Rightarrow>
                          (\<lparr>rStatus = 206, rHeader = hdr,
                            rBody = take (unat (End r) - unat (Start r))
                                      (drop (unat (Start r)) content)\<rparr>, st)
                      | _ \<Rightarrow> (\<lparr>rStatus = 416, rHeader = no_header, rBody = []\<rparr>, st))))"

definition example_seg :: "string \<Rightarrow> string \<Rightarrow> int64 \<Rightarrow> string \<Rightarrow> segItem" where
  "example_seg name hash nbytes rng =
     \<lparr>siHash = hash, siLastModified = [], siBytes = nbytes, siName = name,
      siContentType = [], siRange = rng, siSubSlo = False\<rparr>"

text \<open>The large object of the scenarios: two segments of 5 and 7 bytes.\<close>

definition example_manifest :: "segItem list" where
  "example_manifest = [example_seg ''c/s1'' ''e1'' 5 [], example_seg ''c/s2'' ''e2'' 7 []]"

text \<open>
  A manifest with ranged segments: all of \<open>s1\<close>, bytes 2 to 4 of \<open>s2\<close>, bytes
  1 to 5 of \<open>s2\<close>; \<open>example_content\<close> gives the stored bytes by segment name.
\<close>

definition example_ranged_manifest :: "segItem list" where
  "example_ranged_manifest =
     [example_seg ''c/s1'' ''e1'' 5 [], example_seg ''c/s2'' ''e2'' 7 ''2-4'',
      example_seg ''c/s2'' ''e2'' 7 ''1-5'']"

definition example_content :: "string \<Rightarrow> string" where
  "example_content name = (if name = ''c/s1'' then ''hello'' else '', world'')"

text \<open>The client's manifest for it, as decoded from the body \<open>[client manifest]\<close>.\<close>

definition example_put_manifest :: "sloPutManifest list" where
  "example_put_manifest =
     [\<lparr>spmPath = ''/c/s1'', spmEtag = ''e1'', spmSizeBytes = 5, spmRange = []\<rparr>,
      \<lparr>spmPath = ''/c/s2'', spmEtag = ''e2'', spmSizeBytes = 7, spmRange = []\<rparr>]"

text \<open>
  A client manifest for \<open>/v1/a/c/big\<close> whose second entry is that object
  itself, as decoded from the body \<open>[self manifest]\<close>.
\<close>

definition example_self_manifest :: "sloPutManifest list" where
  "example_self_manifest =
     [\<lparr>spmPath = ''/c/s1'', spmEtag = ''e1'', spmSizeBytes = 5, spmRange = []\<rparr>,
      \<lparr>spmPath = ''/c/big'', spmEtag = [], spmSizeBytes = 0, spmRange = []\<rparr>,
      \<lparr>spmPath = ''/c/s2'', spmEtag = ''e2'', spmSizeBytes = 7, spmRange = []\<rparr>]"

definition example_store :: store where
  "example_store =
     [(''/v1/a/c/big'', ''e'', ''[manifest]''),
      (''/v1/a/c/s1'', ''e1'', ''hello''),
      (''/v1/a/c/s2'', ''e2'', '', world'')]"

text \<open>
  The remaining collaborators are stand-ins: the JSON codec knows the empty
  array, the body \<open>[manifest]\<close> of the example object and the two client
  manifests, the digest is its input in brackets, content types and dates
  pass unchanged.
\<close>

definition example_env :: "store env" where
  "example_env =
     \<lparr>parseRange = example_parseRange,
      parseProxyPath = example_parseProxyPath,
      parseContentTypeForSlo = (\<lambda>ct. ct),
      formatLastModified = (\<lambda>d. d),
      newRequestOk = (\<lambda>m url. True),
      subrequest = example_subrequest,
      nextHandler =
        (\<lambda>st req. (\<lparr>rStatus = 204, rHeader = no_header, rBody = []\<rparr>,
                    if reqMethod req = ''DELETE'' then filter (\<lambda>e. fst e \<noteq> reqPath req) st
                    else st)),
      unmarshalManifest =
        (\<lambda>b. if b = ''[]'' then ([], None)
             else if b = ''[manifest]'' then (example_manifest, None)
             else ([], Some ''invalid JSON'')),
      marshalManifest = (\<lambda>m. ''['' @ concat (map siName m) @ '']''),
      marshalPutManifest = (\<lambda>m. ''['' @ concat (map spmPath m) @ '']''),
      jsonDecoder =
        (\<lambda>b. if b = ''[client manifest]''
             then \<lparr>firstToken = TokenDelim CHR ''['', elements = map Decoded example_put_manifest\<rparr>
             else if b = ''[self manifest]''
             then \<lparr>firstToken = TokenDelim CHR ''['', elements = map Decoded example_self_manifest\<rparr>
             else \<lparr>firstToken = TokenOther, elements = []\<rparr>),
      md5hex = (\<lambda>b. ''md5('' @ b @ '')''),
      mimeTypeByExtension = (\<lambda>name. [])\<rparr>"

definition example_request :: "string \<Rightarrow> string \<Rightarrow> request" where
  "example_request m path =
     \<lparr>reqMethod = m, reqPath = path, reqQuery = no_header, reqHeader = no_header,
      reqBody = []\<rparr>"

text \<open>What the backend answers to a HEAD of the large object.\<close>

definition example_head_response :: response where
  "example_head_response =
     \<lparr>rStatus = 200,
      rHeader = no_header(''X-Static-Large-Object'' := ''True'',
                          ''X-Object-Sysmeta-Slo-Etag'' := ''X'',
                          ''X-Object-Sysmeta-Slo-Size'' := ''12'',
                          ''Etag'' := quoted ''m''),
      rBody = []\<rparr>"

lemmas example_defs =
  example_env_def example_request_def example_parseProxyPath_def example_subrequest_def
  example_seg_def example_manifest_def example_put_manifest_def example_self_manifest_def
  example_store_def example_head_response_def example_ranged_manifest_def example_content_def
  newRequest_def no_header_def
  segPath_def Let_def

section \<open>Claims\<close>

text \<open>
  C10. A segment whose \<open>Range\<close> is non-empty but does not parse to exactly one
  range against its \<open>Bytes\<close> gets the whole-body range \<open>{0, Bytes}\<close> from
  \<open>makeRange\<close>; \<open>segLenHash\<close> then reports the length \<open>Bytes\<close> while the hash
  token still embeds the unparsed range string as \<open><hash>:<range>;\<close>.
\<close>

theorem C10_unparsed_range_fallback:
  assumes "siRange si \<noteq> []"
    and "\<not> (\<exists>r. pr (''bytes='' @ siRange si) (siBytes si) = Inr [r])"
  shows "makeRange pr si = \<lparr>Start = 0, End = siBytes si\<rparr>
       \<and> segLenHash pr si = (siBytes si, siHash si @ '':'' @ siRange si @ '';'')"
proof -
  have m: "makeRange pr si = \<lparr>Start = 0, End = siBytes si\<rparr>"
  proof (cases "pr (''bytes='' @ siRange si) (siBytes si)")
    case (Inl e)
    then show ?thesis using assms(1) by (simp add: makeRange_def)
  next
    case (Inr rs)
    with assms(2) have "\<forall>r. rs \<noteq> [r]" by simp
    with Inr assms(1) show ?thesis
      by (cases rs; cases "tl rs") (auto simp: makeRange_def)
  qed
  with assms(1) show ?thesis by (simp add: segLenHash_def)
qed

theorem C10_unparsed_range_fallback_witness:
  "(let si = \<lparr>siHash = ''abc'', siLastModified = [], siBytes = 10, siName = ''c/o'',
              siContentType = [], siRange = ''x-y'', siSubSlo = False\<rparr>;
        pr = (\<lambda>s n. Inl ''invalid range'') :: range_parser
    in siRange si \<noteq> []
     \<and> \<not> (\<exists>r. pr (''bytes='' @ siRange si) (siBytes si) = Inr [r])
     \<and> makeRange pr si = \<lparr>Start = 0, End = 10\<rparr>
     \<and> segLenHash pr si = (10, ''abc:x-y;''))"
  using C10_unparsed_range_fallback
    [of "\<lparr>siHash = ''abc'', siLastModified = [], siBytes = 10, siName = ''c/o'',
          siContentType = [], siRange = ''x-y'', siSubSlo = False\<rparr>"
        "\<lambda>s n. Inl ''invalid range''"]
  by simp

text \<open>
  C5. The claim: fetching the manifest yields the error
  \<open>Error fetching manifest\<close> for every outcome other than status 200 with a
  non-empty body. The code tests \<open>status != 200 && body == nil\<close>, so a reply
  that is not 200 but has a body is decoded as a manifest, and an empty 200
  reply is handed to the JSON decoder.
\<close>

theorem C5_not_200_with_body_is_decoded:
  "buildSloManifest
     (example_env\<lparr>subrequest :=
        (\<lambda>st sr. (\<lparr>rStatus = 404, rHeader = no_header, rBody = ''[]''\<rparr>, st))\<rparr>)
     [] ''/v1/a/c/big''
   = (([], None), [Subrequest (newRequest ''GET'' ''/v1/a/c/big?multipart-manifest=get'' [])], [])
   \<and> buildSloManifest
     (example_env\<lparr>subrequest :=
        (\<lambda>st sr. (\<lparr>rStatus = 200, rHeader = no_header, rBody = []\<rparr>, st))\<rparr>)
     [] ''/v1/a/c/big''
   = (([], Some (ErrJSON ''invalid JSON'')),
      [Subrequest (newRequest ''GET'' ''/v1/a/c/big?multipart-manifest=get'' [])], [])"
  by (simp add: buildSloManifest_def example_defs)

lemma deleteSegments_all:
  assumes "\<forall>si\<in>set manifest. \<exists>c ob. splitSegPath (siName si) = Inr (c, ob)
             \<and> newRequestOk env ''DELETE'' (segPath account c ob @ ''?multipart-manifest=delete'')"
  shows "deleteSegments env account st manifest =
           (None,
            map (\<lambda>si. case splitSegPath (siName si) of
                        Inr (c, ob) \<Rightarrow>
                          Subrequest (newRequest ''DELETE''
                            (segPath account c ob @ ''?multipart-manifest=delete'') [])) manifest,
            foldl (\<lambda>s si. case splitSegPath (siName si) of
                        Inr (c, ob) \<Rightarrow>
                          snd (subrequest env s (newRequest ''DELETE''
                            (segPath account c ob @ ''?multipart-manifest=delete'') [])))
              st manifest)"
  using assms
proof (induction manifest arbitrary: st)
  case Nil
  then show ?case by simp
next
  case (Cons si manifest)
  from Cons.prems obtain c ob where
    sp: "splitSegPath (siName si) = Inr (c, ob)"
    and ok: "newRequestOk env ''DELETE'' (segPath account c ob @ ''?multipart-manifest=delete'')"
    by auto
  obtain sw st1 where sub: "subrequest env st
      (newRequest ''DELETE'' (segPath account c ob @ ''?multipart-manifest=delete'') []) = (sw, st1)"
    by (cases "subrequest env st
      (newRequest ''DELETE'' (segPath account c ob @ ''?multipart-manifest=delete'') [])")
  from Cons.prems have rest: "\<forall>si\<in>set manifest. \<exists>c ob. splitSegPath (siName si) = Inr (c, ob)
             \<and> newRequestOk env ''DELETE'' (segPath account c ob @ ''?multipart-manifest=delete'')"
    by simp
  show ?case using sp ok sub Cons.IH [OF rest, of st1] by simp
qed

lemma handleSloDelete_forward:
  assumes "parseProxyPath env (reqPath req) = Inr pathMap" and "pathMap ''object'' \<noteq> []"
    and "buildSloManifest env st (reqPath req) = ((manifest, None), evs, st1)"
    and "deleteAllSegments env st1 req manifest = (derr, devs, st2)"
  shows "handleSloDelete env st req =
           (evs @ devs
            @ (case derr of
                 Some e \<Rightarrow> [SimpleErrorResponse 400 (''error deleting slo: '' @ error_text e)]
               | None \<Rightarrow> [])
            @ [ServeNext req],
            snd (nextHandler env st2 req))"
  using assms by (simp add: handleSloDelete_def Let_def split: prod.splits)

text \<open>
  C9. When \<open>DELETE ?multipart-manifest=delete\<close> names an object path and the
  manifest was fetched, the original DELETE is always handed to the next
  handler, last of all, also after \<open>deleteAllSegments\<close> failed and a 400 was
  written: the last event is the call of the next handler and the backend is
  left in the state in which the next handler leaves it, run on the state
  after the segment deletes. Inside \<open>deleteAllSegments\<close> the answers of the
  segment deletes are not looked at: whatever the backend answers, every
  segment with a valid name gets its delete subrequest, in manifest order,
  each run on the state the one before it left.
\<close>

theorem C9_delete_forwards_original_request:
  assumes pp: "parseProxyPath env (reqPath req) = Inr pathMap" "pathMap ''object'' \<noteq> []"
    and man: "buildSloManifest env st (reqPath req) = ((manifest, None), evs, st1)"
  shows "(\<exists>devs. handleSloDelete env st req =
                   (evs @ devs @ [ServeNext req],
                    snd (nextHandler env (snd (snd (deleteAllSegments env st1 req manifest))) req))
            \<and> (fst (deleteAllSegments env st1 req manifest) \<noteq> None
                 \<longrightarrow> (\<exists>msg. SimpleErrorResponse 400 msg \<in> set devs)))
       \<and> (pathMap ''account'' \<noteq> []
            \<and> (\<forall>si\<in>set manifest. \<exists>c ob. splitSegPath (siName si) = Inr (c, ob)
                  \<and> newRequestOk env ''DELETE''
                       (segPath (pathMap ''account'') c ob @ ''?multipart-manifest=delete''))
           \<longrightarrow> handleSloDelete env st req =
                 (evs @ map (\<lambda>si. case splitSegPath (siName si) of
                                   Inr (c, ob) \<Rightarrow>
                                     Subrequest (newRequest ''DELETE''
                                       (segPath (pathMap ''account'') c ob
                                        @ ''?multipart-manifest=delete'') [])) manifest
                  @ [ServeNext req],
                  snd (nextHandler env
                         (foldl (\<lambda>s si. case splitSegPath (siName si) of
                                   Inr (c, ob) \<Rightarrow>
                                     snd (subrequest env s (newRequest ''DELETE''
                                       (segPath (pathMap ''account'') c ob
                                        @ ''?multipart-manifest=delete'') [])))
                            st1 manifest)
                         req)))"
proof (intro conjI impI)
  obtain derr devs st2 where d: "deleteAllSegments env st1 req manifest = (derr, devs, st2)"
    by (cases "deleteAllSegments env st1 req manifest")
  let ?reply = "case derr of
                  Some e \<Rightarrow> [SimpleErrorResponse 400 (''error deleting slo: '' @ error_text e)]
                | None \<Rightarrow> []"
  have "handleSloDelete env st req =
          (evs @ (devs @ ?reply) @ [ServeNext req],
           snd (nextHandler env (snd (snd (deleteAllSegments env st1 req manifest))) req))"
    using handleSloDelete_forward [OF pp man d] d by simp
  moreover have "fst (deleteAllSegments env st1 req manifest) \<noteq> None
                 \<longrightarrow> (\<exists>msg. SimpleErrorResponse 400 msg \<in> set (devs @ ?reply))"
    using d by (cases derr) auto
  ultimately show "\<exists>devs. handleSloDelete env st req =
                   (evs @ devs @ [ServeNext req],
                    snd (nextHandler env (snd (snd (deleteAllSegments env st1 req manifest))) req))
            \<and> (fst (deleteAllSegments env st1 req manifest) \<noteq> None
                 \<longrightarrow> (\<exists>msg. SimpleErrorResponse 400 msg \<in> set devs))"
    by blast
next
  assume a: "pathMap ''account'' \<noteq> []
            \<and> (\<forall>si\<in>set manifest. \<exists>c ob. splitSegPath (siName si) = Inr (c, ob)
                  \<and> newRequestOk env ''DELETE''
                       (segPath (pathMap ''account'') c ob @ ''?multipart-manifest=delete''))"
  then have all: "\<forall>si\<in>set manifest. \<exists>c ob. splitSegPath (siName si) = Inr (c, ob)
                  \<and> newRequestOk env ''DELETE''
                       (segPath (pathMap ''account'') c ob @ ''?multipart-manifest=delete'')"
    by blast
  from a pp have d: "deleteAllSegments env st1 req manifest =
       (None,
        map (\<lambda>si. case splitSegPath (siName si) of
                    Inr (c, ob) \<Rightarrow>
                      Subrequest (newRequest ''DELETE''
                        (segPath (pathMap ''account'') c ob
                         @ ''?multipart-manifest=delete'') [])) manifest,
        foldl (\<lambda>s si. case splitSegPath (siName si) of
                    Inr (c, ob) \<Rightarrow>
                      snd (subrequest env s (newRequest ''DELETE''
                        (segPath (pathMap ''account'') c ob
                         @ ''?multipart-manifest=delete'') [])))
          st1 manifest)"
    by (simp add: deleteAllSegments_def deleteSegments_all [OF all])
  show "handleSloDelete env st req =
                 (evs @ map (\<lambda>si. case splitSegPath (siName si) of
                                   Inr (c, ob) \<Rightarrow>
                                     Subrequest (newRequest ''DELETE''
                                       (segPath (pathMap ''account'') c ob
                                        @ ''?multipart-manifest=delete'') [])) manifest
                  @ [ServeNext req],
                  snd (nextHandler env
                         (foldl (\<lambda>s si. case splitSegPath (siName si) of
                                   Inr (c, ob) \<Rightarrow>
                                     snd (subrequest env s (newRequest ''DELETE''
                                       (segPath (pathMap ''account'') c ob
                                        @ ''?multipart-manifest=delete'') [])))
                            st1 manifest)
                         req))"
    using handleSloDelete_forward [OF pp man d] by simp
qed

text \<open>
  The example: the manifest object and its second segment are stored, the
  first segment is missing. Its delete is answered 404, the second segment
  is deleted all the same, and the next handler removes the manifest object.
\<close>

theorem C9_delete_forwards_original_request_witness:
  "parseProxyPath example_env ''/v1/a/c/big''
     = Inr (no_header(''account'' := ''a'', ''container'' := ''c'', ''object'' := ''big''))
   \<and> buildSloManifest example_env
         [(''/v1/a/c/big'', ''e'', ''[manifest]''), (''/v1/a/c/s2'', ''e2'', '', world'')]
         ''/v1/a/c/big''
       = ((example_manifest, None),
          [Subrequest (newRequest ''GET'' ''/v1/a/c/big?multipart-manifest=get'' [])],
          [(''/v1/a/c/big'', ''e'', ''[manifest]''), (''/v1/a/c/s2'', ''e2'', '', world'')])
   \<and> rStatus (fst (subrequest example_env
         [(''/v1/a/c/big'', ''e'', ''[manifest]''), (''/v1/a/c/s2'', ''e2'', '', world'')]
         (newRequest ''DELETE'' ''/v1/a/c/s1?multipart-manifest=delete'' []))) = 404
   \<and> handleSloDelete example_env
         [(''/v1/a/c/big'', ''e'', ''[manifest]''), (''/v1/a/c/s2'', ''e2'', '', world'')]
         (example_request ''DELETE'' ''/v1/a/c/big'')
       = ([Subrequest (newRequest ''GET'' ''/v1/a/c/big?multipart-manifest=get'' []),
           Subrequest (newRequest ''DELETE'' ''/v1/a/c/s1?multipart-manifest=delete'' []),
           Subrequest (newRequest ''DELETE'' ''/v1/a/c/s2?multipart-manifest=delete'' []),
           ServeNext (example_request ''DELETE'' ''/v1/a/c/big'')],
          [])"
proof -
  let ?st = "[(''/v1/a/c/big'', ''e'', ''[manifest]''), (''/v1/a/c/s2'', ''e2'', '', world'')]"
  let ?req = "example_request ''DELETE'' ''/v1/a/c/big''"
  have p: "parseProxyPath example_env (reqPath ?req)
     = Inr (no_header(''account'' := ''a'', ''container'' := ''c'', ''object'' := ''big''))"
    by (simp add: example_defs)
  have ob: "(no_header(''account'' := ''a'', ''container'' := ''c'', ''object'' := ''big''))
              ''object'' \<noteq> []"
    by simp
  have m: "buildSloManifest example_env ?st (reqPath ?req)
       = ((example_manifest, None),
          [Subrequest (newRequest ''GET'' ''/v1/a/c/big?multipart-manifest=get'' [])], ?st)"
    by (simp add: buildSloManifest_def example_defs)
  have s: "rStatus (fst (subrequest example_env ?st
                 (newRequest ''DELETE'' ''/v1/a/c/s1?multipart-manifest=delete'' []))) = 404"
    by (simp add: example_defs)
  from C9_delete_forwards_original_request [OF p ob m] p m s show ?thesis
    by (simp add: example_defs splitSegPath_def)
qed

lemma not_digit_chars [simp]:
  "\<not> is_digit CHR ''-''" "\<not> is_digit CHR ''/''" "\<not> is_digit CHR ''b''"
  by (simp_all add: is_digit_def)

lemma list_all_digit_iff: "list_all is_digit xs \<longleftrightarrow> (\<forall>x\<in>set xs. is_digit x)"
  by (simp add: list_all_iff)

lemma takeWhile_digits_sep:
  assumes "list_all is_digit a" and "\<not> is_digit c"
  shows "takeWhile is_digit (a @ c # r) = a" and "dropWhile is_digit (a @ c # r) = c # r"
  using assms by (induction a) auto

lemma dropWhile_digits_all:
  "list_all is_digit t \<longleftrightarrow> dropWhile is_digit t = []"
  by (induction t) auto

lemma match_here_complete:
  assumes "list_all is_digit a" "a \<noteq> []" "list_all is_digit b" "b \<noteq> []"
    "list_all is_digit c" "c \<noteq> []"
  shows "match_here (''bytes '' @ a @ ''-'' @ b @ ''/'' @ c) = Some (a, b, c)"
  using assms
  by (simp add: match_here_def Let_def takeWhile_digits_sep)

lemma match_here_sound:
  assumes "match_here s = Some (a, b, c)"
  shows "s = ''bytes '' @ a @ ''-'' @ b @ ''/'' @ c
       \<and> list_all is_digit a \<and> a \<noteq> [] \<and> list_all is_digit b \<and> b \<noteq> []
       \<and> list_all is_digit c \<and> c \<noteq> []"
proof -
  from assms have t6: "take 6 s = ''bytes ''"
    by (auto simp: match_here_def split: if_splits)
  define t where "t = drop 6 s"
  have s: "s = ''bytes '' @ t" unfolding t_def using t6 append_take_drop_id [of 6 s] by simp
  from assms t6 obtain t2 where
    a: "a = takeWhile is_digit t" "a \<noteq> []" and d1: "dropWhile is_digit t = CHR ''-'' # t2"
    and r2: "(let b = takeWhile is_digit t2
          in if b = [] then None
             else (case dropWhile is_digit t2 of
                     c2 # t3 \<Rightarrow> if c2 \<noteq> CHR ''/'' then None
                               else if t3 = [] \<or> \<not> list_all is_digit t3 then None
                               else Some (a, b, t3)
                   | [] \<Rightarrow> None)) = Some (a, b, c)"
    unfolding t_def
    by (auto simp: match_here_def Let_def split: if_splits list.splits)
  from r2 have b: "b = takeWhile is_digit t2" "b \<noteq> []"
    and d2: "dropWhile is_digit t2 = CHR ''/'' # c" and c: "c \<noteq> []" "list_all is_digit c"
    by (auto simp: Let_def split: if_splits list.splits)
  have T: "t = a @ CHR ''-'' # t2" using a(1) d1 takeWhile_dropWhile_id [of is_digit t] by simp
  have T2: "t2 = b @ CHR ''/'' # c" using b(1) d2 takeWhile_dropWhile_id [of is_digit t2] by simp
  have D: "list_all is_digit a" "list_all is_digit b"
    using a(1) b(1) by (auto simp: list_all_iff dest: set_takeWhileD)
  have "s = ''bytes '' @ a @ ''-'' @ b @ ''/'' @ c"
    by (simp add: s T [unfolded T2])
  with D a(2) b(2) c show ?thesis by blast
qed

lemma match_here_no_b:
  assumes "match_here (x # s) = Some r"
  shows "CHR ''b'' \<notin> set s"
proof -
  obtain a b c where r: "r = (a, b, c)" by (cases r)
  from match_here_sound [OF assms [unfolded r]]
  have eq: "x # s = ''bytes '' @ a @ ''-'' @ b @ ''/'' @ c"
    and d: "list_all is_digit a" "list_all is_digit b" "list_all is_digit c" by auto
  from eq have "s = ''ytes '' @ a @ ''-'' @ b @ ''/'' @ c" by simp
  moreover have "CHR ''b'' \<notin> set a" "CHR ''b'' \<notin> set b" "CHR ''b'' \<notin> set c"
    using d by (auto simp: list_all_iff)
  ultimately show ?thesis by auto
qed

lemma Find_complete:
  assumes "list_all is_digit a" "a \<noteq> []" "list_all is_digit b" "b \<noteq> []"
    "list_all is_digit c" "c \<noteq> []"
  shows "FindStringSubmatch (pre @ ''bytes '' @ a @ ''-'' @ b @ ''/'' @ c) = Some (a, b, c)"
proof (induction pre)
  case Nil
  show ?case using match_here_complete [OF assms] by simp
next
  case (Cons x pre)
  have "match_here (x # pre @ ''bytes '' @ a @ ''-'' @ b @ ''/'' @ c) = None"
  proof (cases "match_here (x # pre @ ''bytes '' @ a @ ''-'' @ b @ ''/'' @ c)")
    case (Some r)
    from match_here_no_b [OF Some] show ?thesis by simp
  qed simp
  with Cons show ?case by simp
qed

lemma Find_sound:
  assumes "FindStringSubmatch s = Some (a, b, c)"
  shows "\<exists>pre. s = pre @ ''bytes '' @ a @ ''-'' @ b @ ''/'' @ c
       \<and> list_all is_digit a \<and> a \<noteq> [] \<and> list_all is_digit b \<and> b \<noteq> []
       \<and> list_all is_digit c \<and> c \<noteq> []"
  using assms
proof (induction s)
  case Nil
  then show ?case by (simp add: match_here_def)
next
  case (Cons x s)
  show ?case
  proof (cases "match_here (x # s)")
    case None
    with Cons.prems have "FindStringSubmatch s = Some (a, b, c)" by simp
    from Cons.IH [OF this] obtain pre where
      "s = pre @ ''bytes '' @ a @ ''-'' @ b @ ''/'' @ c
       \<and> list_all is_digit a \<and> a \<noteq> [] \<and> list_all is_digit b \<and> b \<noteq> []
       \<and> list_all is_digit c \<and> c \<noteq> []" by blast
    then have "x # s = (x # pre) @ ''bytes '' @ a @ ''-'' @ b @ ''/'' @ c
       \<and> list_all is_digit a \<and> a \<noteq> [] \<and> list_all is_digit b \<and> b \<noteq> []
       \<and> list_all is_digit c \<and> c \<noteq> []" by simp
    then show ?thesis by blast
  next
    case (Some r)
    with Cons.prems have "match_here (x # s) = Some (a, b, c)" by simp
    from match_here_sound [OF this] have "x # s = [] @ ''bytes '' @ a @ ''-'' @ b @ ''/'' @ c
       \<and> list_all is_digit a \<and> a \<noteq> [] \<and> list_all is_digit b \<and> b \<noteq> []
       \<and> list_all is_digit c \<and> c \<noteq> []" by simp
    then show ?thesis by blast
  qed
qed

text \<open>
  C7. The claim: the refetch decision follows the specification's table
  exactly. It does not: the pattern is searched anywhere in the header and is
  tied to the end only, so a \<open>Content-Range\<close> with text in front of
  \<open>bytes 0-4/5\<close> is malformed for the specification and complete for the code.
\<close>

theorem C7_refetch_table_counterexample:
  "spec_needToRefetch
     \<lparr>wHeader = no_header(''Content-Range'' := ''xbytes 0-4/5''), funcName = [],
      status = 206, isSlo = True, isDlo = False, body = []\<rparr>
     ((example_request ''GET'' ''/v1/a/c/big'')
        \<lparr>reqHeader := no_header(''Range'' := ''bytes=0-4'')\<rparr>)
   \<and> \<not> needToRefetchManifest
     \<lparr>wHeader = no_header(''Content-Range'' := ''xbytes 0-4/5''), funcName = [],
      status = 206, isSlo = True, isDlo = False, body = []\<rparr>
     ((example_request ''GET'' ''/v1/a/c/big'')
        \<lparr>reqHeader := no_header(''Range'' := ''bytes=0-4'')\<rparr>)"
  by (simp add: spec_needToRefetch_def spec_content_range_def needToRefetchManifest_def
      match_here_def ParseInt_def is_digit_def dec_val_def digit_val_def example_defs)

text \<open>
  C7, amended. Refetch if the method is HEAD; if a \<open>Range\<close> header is present
  and the status is 416; if a \<open>Range\<close> header is present, the status is 200 or
  206 and the \<open>Content-Range\<close> header does not end in \<open>bytes 0-B/C\<close> with
  \<open>B\<close> and \<open>C\<close> decimal and \<open>B = C - 1\<close> as \<open>ParseInt\<close> reads them into
  an int64. In all other cases there is no refetch.
\<close>

theorem C7_refetch_decision:
  "needToRefetchManifest sw req \<longleftrightarrow>
     reqMethod req = ''HEAD'' \<or>
     (reqHeader req ''Range'' \<noteq> [] \<and>
       (status sw = 416 \<or>
        ((status sw = 200 \<or> status sw = 206) \<and>
          \<not> (\<exists>pre b c. wHeader sw ''Content-Range'' = pre @ ''bytes 0-'' @ b @ ''/'' @ c
                \<and> b \<noteq> [] \<and> list_all is_digit b \<and> c \<noteq> [] \<and> list_all is_digit c
                \<and> fst (ParseInt b) = fst (ParseInt c) - 1))))"
proof -
  let ?cr = "wHeader sw ''Content-Range''"
  let ?whole = "\<exists>pre b c. ?cr = pre @ ''bytes 0-'' @ b @ ''/'' @ c
                \<and> b \<noteq> [] \<and> list_all is_digit b \<and> c \<noteq> [] \<and> list_all is_digit c
                \<and> fst (ParseInt b) = fst (ParseInt c) - 1"
  have zero: "list_all is_digit ''0''" "''0'' \<noteq> []" by (simp_all add: is_digit_def)
  have key: "(case FindStringSubmatch ?cr of
                None \<Rightarrow> True
              | Some (r1, r2, r3) \<Rightarrow>
                  \<not> (r1 = ''0'' \<and> fst (ParseInt r2) = fst (ParseInt r3) - 1)) \<longleftrightarrow> \<not> ?whole"
  proof (cases "FindStringSubmatch ?cr")
    case None
    have "\<not> ?whole"
    proof
      assume ?whole
      then obtain pre b c where "?cr = pre @ ''bytes '' @ ''0'' @ ''-'' @ b @ ''/'' @ c"
        and "b \<noteq> []" "list_all is_digit b" "c \<noteq> []" "list_all is_digit c" by auto
      with Find_complete [OF zero, of b c pre] None show False by simp
    qed
    with None show ?thesis by simp
  next
    case (Some r)
    obtain r1 r2 r3 where r: "r = (r1, r2, r3)" by (cases r)
    from Find_sound [OF Some [unfolded r]] obtain pre where
      cr: "?cr = pre @ ''bytes '' @ r1 @ ''-'' @ r2 @ ''/'' @ r3"
      and d: "list_all is_digit r2" "r2 \<noteq> []" "list_all is_digit r3" "r3 \<noteq> []" by blast
    have "?whole \<longleftrightarrow> r1 = ''0'' \<and> fst (ParseInt r2) = fst (ParseInt r3) - 1"
    proof
      assume ?whole
      then obtain pre' b c where e: "?cr = pre' @ ''bytes '' @ ''0'' @ ''-'' @ b @ ''/'' @ c"
        and bc: "b \<noteq> []" "list_all is_digit b" "c \<noteq> []" "list_all is_digit c"
        and pi: "fst (ParseInt b) = fst (ParseInt c) - 1" by auto
      from Find_complete [OF zero bc(2) bc(1) bc(4) bc(3), of pre'] e Some r
      have "r1 = ''0''" "r2 = b" "r3 = c" by simp_all
      with pi show "r1 = ''0'' \<and> fst (ParseInt r2) = fst (ParseInt r3) - 1" by simp
    next
      assume a: "r1 = ''0'' \<and> fst (ParseInt r2) = fst (ParseInt r3) - 1"
      with cr have "?cr = pre @ ''bytes 0-'' @ r2 @ ''/'' @ r3" by simp
      with a d show ?whole by blast
    qed
    with Some r show ?thesis by simp
  qed
  show ?thesis
    unfolding needToRefetchManifest_def Let_def using key by auto
qed

lemma parseItems_replicate:
  assumes "CHR ''/'' \<in> set (dropWhile (\<lambda>c. c = CHR ''/'') (spmPath m))"
    and "\<not> spmSizeBytes m <s 0" and "spmRange m = []"
  shows "i + n \<le> Suc maxManifestLen \<Longrightarrow>
         parseItems i (replicate n (Decoded m)) manifest es = (manifest @ replicate n m, es)"
proof (induction n arbitrary: i manifest)
  case 0
  then show ?case by simp
next
  case (Suc n)
  from Suc.prems have le: "\<not> maxManifestLen < i" and nx: "Suc i + n \<le> Suc maxManifestLen" by simp_all
  from Suc.IH [OF nx, of "manifest @ [m]"] le assms show ?case
    by (simp add: replicate_app_Cons_same)
qed

text \<open>
  C6. The claim: the parser accepts at most \<open>maxManifestLen\<close> (1000) items and
  reports \<open>too many segments\<close> for every array with more. The loop tests
  \<open>i > maxManifestLen\<close> with \<open>i\<close> counting from 0, so an array of 1001
  valid items is returned whole, with no error.
\<close>

theorem C6_accepts_1001_items:
  "parsePutSloManifest
     \<lparr>firstToken = TokenDelim CHR ''['',
      elements = replicate 1001
        (Decoded \<lparr>spmPath = ''/c/s1'', spmEtag = [], spmSizeBytes = 0, spmRange = []\<rparr>)\<rparr>
   = (replicate 1001 \<lparr>spmPath = ''/c/s1'', spmEtag = [], spmSizeBytes = 0, spmRange = []\<rparr>, [])
   \<and> length (fst (parsePutSloManifest
     \<lparr>firstToken = TokenDelim CHR ''['',
      elements = replicate 1001
        (Decoded \<lparr>spmPath = ''/c/s1'', spmEtag = [], spmSizeBytes = 0, spmRange = []\<rparr>)\<rparr>))
     = maxManifestLen + 1"
proof -
  have "parseItems 0 (replicate 1001
        (Decoded \<lparr>spmPath = ''/c/s1'', spmEtag = [], spmSizeBytes = 0, spmRange = []\<rparr>)) [] []
     = ([] @ replicate 1001 \<lparr>spmPath = ''/c/s1'', spmEtag = [], spmSizeBytes = 0, spmRange = []\<rparr>, [])"
    by (rule parseItems_replicate) (simp_all add: maxManifestLen_def)
  then show ?thesis by (simp add: parsePutSloManifest_def maxManifestLen_def)
qed

text \<open>What the loop does guarantee: never more than 1001 items.\<close>

lemma parseItems_bound:
  "length (fst (parseItems i ds manifest es)) \<le> length manifest + (Suc maxManifestLen - i)"
proof (induction ds arbitrary: i manifest es)
  case Nil
  then show ?case by simp
next
  case (Cons d ds)
  show ?case
  proof (cases "maxManifestLen < i")
    case True
    then show ?thesis by simp
  next
    case False
    then have s: "Suc maxManifestLen - i = Suc (Suc maxManifestLen - Suc i)" by simp
    show ?thesis
    proof (cases d)
      case (Decoded m)
      from Cons.IH [of "Suc i" manifest] Cons.IH [of "Suc i" "manifest @ [m]"] False s Decoded
      show ?thesis by (auto simp: le_Suc_eq)
    qed (use False in simp_all)
  qed
qed

lemma putStep_facts:
  assumes "putStep env pathMap st spm ps = (step, evs, st')"
  shows "length evs \<le> 1" and "\<forall>ev\<in>set evs. \<exists>sr. ev = Subrequest sr \<and> srMethod sr = ''HEAD''"
    and "step = Break ps' \<Longrightarrow> errs ps' \<noteq> []"
    and "step = Return \<Longrightarrow>
           \<exists>c ob. splitSegPath (spmPath spm) = Inr (c, ob)
                \<and> \<not> newRequestOk env ''HEAD'' (segPath (pathMap ''account'') c ob)"
  using assms
  by (auto simp: putStep_def Let_def addErr_def newRequest_def
      split: sum.splits prod.splits if_splits list.splits option.splits)

lemma putStep_self:
  assumes "splitSegPath (spmPath spm) = Inr (pathMap ''container'', pathMap ''object'')"
  shows "putStep env pathMap st spm ps =
           (Break (addErr ps (''manifest cannot reference itself: '' @ spmPath spm)), [], st)"
  using assms by (simp add: putStep_def)


lemma putLoop_self:
  assumes self: "splitSegPath (spmPath spm) = Inr (pathMap ''container'', pathMap ''object'')"
  shows "putLoop env pathMap st (pre @ spm # post) ps = (r, evs, st') \<Longrightarrow>
         length evs \<le> length pre
       \<and> (\<forall>ev\<in>set evs. \<exists>sr. ev = Subrequest sr \<and> srMethod sr = ''HEAD'')
       \<and> (\<forall>ps'. r = Some ps' \<longrightarrow> errs ps' \<noteq> [])
       \<and> ((\<forall>m\<in>set pre. \<forall>c ob. splitSegPath (spmPath m) = Inr (c, ob)
              \<longrightarrow> newRequestOk env ''HEAD'' (segPath (pathMap ''account'') c ob))
            \<longrightarrow> r \<noteq> None)"
proof (induction pre arbitrary: st ps r evs st')
  case Nil
  then show ?case by (auto simp: putStep_self [OF self] addErr_def)
next
  case (Cons x pre)
  obtain step evs1 st1 where step: "putStep env pathMap st x ps = (step, evs1, st1)"
    by (cases "putStep env pathMap st x ps")
  note f = putStep_facts [OF step]
  show ?case
  proof (cases step)
    case (Continue ps1)
    obtain r2 evs2 st2 where rest: "putLoop env pathMap st1 (pre @ spm # post) ps1 = (r2, evs2, st2)"
      by (cases "putLoop env pathMap st1 (pre @ spm # post) ps1")
    from Cons.prems step Continue rest have eq: "r = r2" "evs = evs1 @ evs2" by simp_all
    from Cons.IH [OF rest] f(1,2) eq show ?thesis by auto
  next
    case (Break ps1)
    with Cons.prems step have eq: "r = Some ps1" "evs = evs1" by simp_all
    from f(1,2) f(3) [OF Break] eq show ?thesis by auto
  next
    case Return
    with Cons.prems step have eq: "r = None" "evs = evs1" by simp_all
    from f(1,2) f(4) [OF Return] eq show ?thesis by auto
  qed
qed

text \<open>
  C8. The claim: every SLO PUT whose manifest names the manifest's own
  container and object is rejected with 400 and no PUT is issued. The checks
  in front of the parser answer first: with an \<open>X-Copy-From\<close> header the
  reply is 405 and the manifest is never read.
\<close>

theorem C8_self_reference_counterexample:
  "fst (parsePutSloManifest (jsonDecoder example_env ''[self manifest]''))
     = example_self_manifest
   \<and> splitSegPath (spmPath (example_self_manifest ! 1)) = Inr (''c'', ''big'')
   \<and> fst (handleSloPut example_env example_store
        ((example_request ''PUT'' ''/v1/a/c/big'')
           \<lparr>reqHeader := no_header(''Content-Length'' := ''15'', ''X-Copy-From'' := ''/c/s1''),
            reqBody := ''[self manifest]''\<rparr>))
     = [SimpleErrorResponse 405 ''Multipart Manifest PUTs cannot be COPY requests'']"
  by (simp add: handleSloPut_def parsePutSloManifest_def maxManifestLen_def splitSegPath_def
      word_sless_alt example_defs)

text \<open>
  C8, amended. An SLO PUT that has passed the checks in front of the parser
  (an object path, a \<open>Content-Length\<close> or chunked encoding, no
  \<open>X-Copy-From\<close>) and whose parsed manifest has an entry that splits into the
  manifest's own container and object: nothing but HEAD subrequests and a 400
  reply ever happens, so no PUT is issued; validation stops at that entry (at
  most one HEAD for each entry in front of it); and the reply is 400 when the
  HEAD requests for the entries in front of it could be built.
\<close>

theorem C8_self_reference_rejected:
  assumes pp: "parseProxyPath env (reqPath req) = Inr pathMap" "pathMap ''object'' \<noteq> []"
    and cl: "reqHeader req ''Content-Length'' \<noteq> [] \<or> reqHeader req ''Transfer-Encoding'' = ''chunked''"
    and cf: "reqHeader req ''X-Copy-From'' = []"
    and parse: "fst (parsePutSloManifest (jsonDecoder env (reqBody req))) = pre @ spm # post"
    and self: "splitSegPath (spmPath spm) = Inr (pathMap ''container'', pathMap ''object'')"
  shows "(\<forall>ev\<in>set (fst (handleSloPut env st req)).
            (\<exists>sr. ev = Subrequest sr \<and> srMethod sr = ''HEAD'') \<or> (\<exists>msg. ev = SimpleErrorResponse 400 msg))
       \<and> length (filter (\<lambda>ev. \<exists>sr. ev = Subrequest sr) (fst (handleSloPut env st req))) \<le> length pre
       \<and> ((\<forall>m\<in>set pre. \<forall>c ob. splitSegPath (spmPath m) = Inr (c, ob)
              \<longrightarrow> newRequestOk env ''HEAD'' (segPath (pathMap ''account'') c ob))
            \<longrightarrow> (\<exists>evs msg. fst (handleSloPut env st req) = evs @ [SimpleErrorResponse 400 msg]))"
proof -
  obtain manifest perrs where p: "parsePutSloManifest (jsonDecoder env (reqBody req)) = (manifest, perrs)"
    by (cases "parsePutSloManifest (jsonDecoder env (reqBody req))")
  with parse have m: "manifest = pre @ spm # post" by simp
  show ?thesis
  proof (cases "perrs = []")
    case False
    with pp cl cf p have "fst (handleSloPut env st req) = [SimpleErrorResponse 400 (join_lines perrs)]"
      by (auto simp: handleSloPut_def)
    then show ?thesis by simp
  next
    case True
    let ?ps0 = "\<lparr>toPutManifest = [], totalSize = 0, sloEtag = [], errs = []\<rparr>"
    obtain r evs st1 where l: "putLoop env pathMap st (pre @ spm # post) ?ps0 = (r, evs, st1)"
      by (cases "putLoop env pathMap st (pre @ spm # post) ?ps0")
    note f = putLoop_self [OF self l]
    have hd: "filter (\<lambda>ev. \<exists>sr. ev = Subrequest sr) evs = evs"
      using f by (auto simp: filter_id_conv)
    show ?thesis
    proof (cases r)
      case None
      with pp cl cf p m True l have "fst (handleSloPut env st req) = evs"
        by (auto simp: handleSloPut_def)
      with f hd None show ?thesis by auto
    next
      case (Some ps')
      with f have "errs ps' \<noteq> []" by simp
      with pp cl cf p m True l Some
      have "fst (handleSloPut env st req) = evs @ [SimpleErrorResponse 400 (join_lines (errs ps'))]"
        by (auto simp: handleSloPut_def)
      with f hd show ?thesis by auto
    qed
  qed
qed


theorem C8_self_reference_rejected_witness:
  "parseProxyPath example_env ''/v1/a/c/big''
     = Inr (no_header(''account'' := ''a'', ''container'' := ''c'', ''object'' := ''big''))
   \<and> fst (parsePutSloManifest (jsonDecoder example_env ''[self manifest]''))
       = example_self_manifest
   \<and> splitSegPath ''/c/big'' = Inr (''c'', ''big'')
   \<and> set (fst (handleSloPut example_env example_store
          ((example_request ''PUT'' ''/v1/a/c/big'')
             \<lparr>reqHeader := no_header(''Content-Length'' := ''15''),
              reqBody := ''[self manifest]''\<rparr>)))
     \<subseteq> {ev. (\<exists>sr. ev = Subrequest sr \<and> srMethod sr = ''HEAD'')
             \<or> (\<exists>msg. ev = SimpleErrorResponse 400 msg)}
   \<and> length (filter (\<lambda>ev. \<exists>sr. ev = Subrequest sr)
         (fst (handleSloPut example_env example_store
            ((example_request ''PUT'' ''/v1/a/c/big'')
               \<lparr>reqHeader := no_header(''Content-Length'' := ''15''),
                reqBody := ''[self manifest]''\<rparr>)))) \<le> 1
   \<and> (\<exists>evs msg. fst (handleSloPut example_env example_store
          ((example_request ''PUT'' ''/v1/a/c/big'')
             \<lparr>reqHeader := no_header(''Content-Length'' := ''15''),
              reqBody := ''[self manifest]''\<rparr>))
       = evs @ [SimpleErrorResponse 400 msg])"
proof -
  let ?req = "(example_request ''PUT'' ''/v1/a/c/big'')
                \<lparr>reqHeader := no_header(''Content-Length'' := ''15''),
                 reqBody := ''[self manifest]''\<rparr>"
  let ?pm = "no_header(''account'' := ''a'', ''container'' := ''c'', ''object'' := ''big'')"
  let ?s1 = "\<lparr>spmPath = ''/c/s1'', spmEtag = ''e1'', spmSizeBytes = 5, spmRange = []\<rparr>"
  let ?big = "\<lparr>spmPath = ''/c/big'', spmEtag = [], spmSizeBytes = 0, spmRange = []\<rparr>"
  let ?s2 = "\<lparr>spmPath = ''/c/s2'', spmEtag = ''e2'', spmSizeBytes = 7, spmRange = []\<rparr>"
  have h1: "parseProxyPath example_env (reqPath ?req) = Inr ?pm" by (simp add: example_defs)
  have h2: "?pm ''object'' \<noteq> []" by simp
  have h3: "reqHeader ?req ''Content-Length'' \<noteq> []
            \<or> reqHeader ?req ''Transfer-Encoding'' = ''chunked''"
    by (simp add: example_defs)
  have h4: "reqHeader ?req ''X-Copy-From'' = []" by (simp add: example_defs)
  have h5: "fst (parsePutSloManifest (jsonDecoder example_env (reqBody ?req)))
              = [?s1] @ ?big # [?s2]"
    by (simp add: parsePutSloManifest_def maxManifestLen_def word_sless_alt example_defs)
  have h6: "splitSegPath (spmPath ?big) = Inr (?pm ''container'', ?pm ''object'')"
    by (simp add: splitSegPath_def)
  have h7: "\<forall>m\<in>set [?s1]. \<forall>c ob. splitSegPath (spmPath m) = Inr (c, ob)
              \<longrightarrow> newRequestOk example_env ''HEAD'' (segPath (?pm ''account'') c ob)"
    by (simp add: example_defs)
  from C8_self_reference_rejected [OF h1 h2 h3 h4 h5 h6, of example_store] h7
  have "set (fst (handleSloPut example_env example_store ?req))
          \<subseteq> {ev. (\<exists>sr. ev = Subrequest sr \<and> srMethod sr = ''HEAD'')
                  \<or> (\<exists>msg. ev = SimpleErrorResponse 400 msg)}"
    and "length (filter (\<lambda>ev. \<exists>sr. ev = Subrequest sr)
           (fst (handleSloPut example_env example_store ?req))) \<le> 1"
    and "\<exists>evs msg. fst (handleSloPut example_env example_store ?req)
           = evs @ [SimpleErrorResponse 400 msg]"
    by (blast, simp, blast)
  moreover have "parseProxyPath example_env ''/v1/a/c/big'' = Inr ?pm"
    using h1 by (simp add: example_defs)
  moreover have "splitSegPath ''/c/big'' = Inr (''c'', ''big'')" by (simp add: splitSegPath_def)
  moreover have "fst (parsePutSloManifest (jsonDecoder example_env ''[self manifest]''))
       = example_self_manifest"
    using h5 by (simp add: example_defs)
  ultimately show ?thesis by blast
qed

text \<open>
  C3. The claim: when the client's \<open>Etag\<close> differs from the computed SLO
  etag the reply is 422 and no PUT subrequest is issued. The code writes the
  422 and does not return: the manifest is persisted all the same.
\<close>

theorem C3_etag_mismatch_still_persists:
  "fst (handleSloPut example_env example_store
     ((example_request ''PUT'' ''/v1/a/c/big'')
        \<lparr>reqHeader := no_header(''Content-Length'' := ''17'', ''Etag'' := ''wrong''),
         reqBody := ''[client manifest]''\<rparr>))
   = [Subrequest (newRequest ''HEAD'' ''/v1/a/c/s1'' []),
      Subrequest (newRequest ''HEAD'' ''/v1/a/c/s2'' []),
      SimpleErrorResponse 422 ''Invalid Etag'',
      SubrequestToClient
        (putRequest ''/v1/a/c/big'' ''application/octet-stream'' ''md5(e1e2)'' 12
           ''md5([/c/s1/c/s2])'' ''[/c/s1/c/s2]'')]
   \<and> map_of example_store ''/v1/a/c/big'' = Some (''e'', ''[manifest]'')
   \<and> map_of (snd (handleSloPut example_env example_store
     ((example_request ''PUT'' ''/v1/a/c/big'')
        \<lparr>reqHeader := no_header(''Content-Length'' := ''17'', ''Etag'' := ''wrong''),
         reqBody := ''[client manifest]''\<rparr>))) ''/v1/a/c/big''
     = Some (''md5([/c/s1/c/s2])'', ''[/c/s1/c/s2]'')"
  by (simp add: handleSloPut_def parsePutSloManifest_def maxManifestLen_def putStep_def
      splitSegPath_def ParseInt_def is_digit_def dec_val_def digit_val_def fmt_int_def
      trim_quotes_def segLenHash_def addErr_def putRequest_def word_sless_alt example_defs)

lemma handleSloGet_short_circuit:
  assumes "funcName sw \<noteq> ''get''"
    and "reqMethod req = ''HEAD''
         \<or> ((reqHeader req ''If-Match'' \<noteq> [] \<or> reqHeader req ''If-None-Match'' \<noteq> [])
             \<and> (status sw = 304 \<or> status sw = 412))"
    and "wHeader sw ''X-Object-Sysmeta-Slo-Etag'' \<noteq> []
         \<or> wHeader sw ''X-Object-Sysmeta-Slo-Size'' \<noteq> []"
  shows "handleSloGet env st sw req =
           ([WriteHeader (status sw)
               ((wHeader sw)
                  (''Content-Type'' := parseContentTypeForSlo env (wHeader sw ''Content-Type''),
                   ''Content-Length'' := wHeader sw ''X-Object-Sysmeta-Slo-Size'',
                   ''Etag'' := quoted (wHeader sw ''X-Object-Sysmeta-Slo-Etag'')))], st)"
  using assms by (auto simp: handleSloGet_def Let_def)

text \<open>
  C4. The claim: every HEAD against an SLO whose backend reply carries
  \<open>Slo-Etag\<close> and \<open>Slo-Size\<close> is answered with these as \<open>Etag\<close> (quoted)
  and \<open>Content-Length\<close>. A HEAD with \<open>multipart-manifest=get\<close> takes the
  raw-manifest branch first: the length is that of the buffered body and the
  etag is the object's own, unquoted.
\<close>

theorem C4_head_raw_manifest_counterexample:
  "rHeader example_head_response ''X-Object-Sysmeta-Slo-Size'' = ''12''
   \<and> rHeader example_head_response ''X-Object-Sysmeta-Slo-Etag'' = ''X''
   \<and> (\<exists>hdr. fst (ServeHTTP
          (example_env\<lparr>nextHandler := (\<lambda>st req. (example_head_response, st))\<rparr>)
          example_store
          ((example_request ''HEAD'' ''/v1/a/c/big'')
             \<lparr>reqQuery := no_header(''multipart-manifest'' := ''get'')\<rparr>))
        = [WriteHeader 200 hdr, Write []]
        \<and> hdr ''Content-Length'' = ''0'' \<and> hdr ''Etag'' = ''m'')"
  by (simp add: ServeHTTP_def handleSloGet_def identifyWriteHeader_def identifyWrite_def
      fmt_int_def trim_quotes_def quoted_def example_defs)

text \<open>
  C4, amended. A HEAD (or a GET with \<open>If-Match\<close> or \<open>If-None-Match\<close> that the
  backend answered with 304 or 412) that is not a raw manifest fetch
  (\<open>multipart-manifest\<close> is not \<open>get\<close>), against an object whose backend
  reply is marked as SLO and carries \<open>Slo-Etag\<close> and \<open>Slo-Size\<close>: the only
  thing that happens is one \<open>WriteHeader\<close> with the backend's status, with
  \<open>Content-Length\<close> equal to \<open>Slo-Size\<close> and \<open>Etag\<close> the quoted
  \<open>Slo-Etag\<close>; no body is written and no subrequest is issued.
\<close>

theorem C4_head_short_circuit:
  assumes m: "reqMethod req = ''HEAD''
         \<or> (reqMethod req = ''GET''
             \<and> (reqHeader req ''If-Match'' \<noteq> [] \<or> reqHeader req ''If-None-Match'' \<noteq> [])
             \<and> (rStatus resp = 304 \<or> rStatus resp = 412))"
    and q: "reqQuery req ''multipart-manifest'' \<noteq> ''get''"
    and n: "nextHandler env st (updateEtagIsAt req ''X-Object-Sysmeta-Slo-Etag'') = (resp, st1)"
    and slo: "rHeader resp ''X-Static-Large-Object'' = ''True''"
    and meta: "rHeader resp ''X-Object-Sysmeta-Slo-Etag'' \<noteq> []"
              "rHeader resp ''X-Object-Sysmeta-Slo-Size'' \<noteq> []"
  shows "\<exists>hdr. ServeHTTP env st req = ([WriteHeader (rStatus resp) hdr], st1)
           \<and> hdr ''Content-Length'' = rHeader resp ''X-Object-Sysmeta-Slo-Size''
           \<and> hdr ''Etag'' = quoted (rHeader resp ''X-Object-Sysmeta-Slo-Etag'')"
proof -
  let ?req1 = "updateEtagIsAt req ''X-Object-Sysmeta-Slo-Etag''"
  let ?sw0 = "\<lparr>wHeader = rHeader resp, funcName = reqQuery req ''multipart-manifest'', status = 0,
               isSlo = False, isDlo = False, body = []\<rparr>"
  obtain sw1 evs1 where w1: "identifyWriteHeader ?sw0 (rStatus resp) = (sw1, evs1)"
    by (cases "identifyWriteHeader ?sw0 (rStatus resp)")
  obtain sw2 evs2 where w2: "identifyWrite sw1 (rBody resp) = (sw2, evs2)"
    by (cases "identifyWrite sw1 (rBody resp)")
  from w1 slo have s1: "isSlo sw1" "evs1 = []" "wHeader sw1 = rHeader resp"
    "status sw1 = rStatus resp" "funcName sw1 = reqQuery req ''multipart-manifest''"
    by (auto simp: identifyWriteHeader_def Let_def split: if_splits)
  from w2 s1 have s2: "isSlo sw2" "evs2 = []" "wHeader sw2 = rHeader resp"
    "status sw2 = rStatus resp" "funcName sw2 = reqQuery req ''multipart-manifest''"
    by (auto simp: identifyWrite_def split: if_splits)
  have r1: "reqMethod ?req1 = reqMethod req" "reqHeader ?req1 ''If-Match'' = reqHeader req ''If-Match''"
    "reqHeader ?req1 ''If-None-Match'' = reqHeader req ''If-None-Match''"
    by (simp_all add: updateEtagIsAt_def Let_def)
  have c: "reqMethod ?req1 = ''HEAD''
         \<or> ((reqHeader ?req1 ''If-Match'' \<noteq> [] \<or> reqHeader ?req1 ''If-None-Match'' \<noteq> [])
             \<and> (status sw2 = 304 \<or> status sw2 = 412))"
    using m r1 s2 by auto
  from handleSloGet_short_circuit [of sw2 ?req1 env st1, OF _ c] q s2 meta
  have h: "handleSloGet env st1 sw2 ?req1 =
           ([WriteHeader (rStatus resp)
               ((rHeader resp)
                  (''Content-Type'' := parseContentTypeForSlo env (rHeader resp ''Content-Type''),
                   ''Content-Length'' := rHeader resp ''X-Object-Sysmeta-Slo-Size'',
                   ''Etag'' := quoted (rHeader resp ''X-Object-Sysmeta-Slo-Etag'')))], st1)"
    by simp
  have mm: "reqMethod req = ''GET'' \<or> reqMethod req = ''HEAD''" "reqMethod req \<noteq> ''PUT''"
    "reqMethod req \<noteq> ''DELETE''"
    using m by auto
  have "ServeHTTP env st req =
           ([WriteHeader (rStatus resp)
               ((rHeader resp)
                  (''Content-Type'' := parseContentTypeForSlo env (rHeader resp ''Content-Type''),
                   ''Content-Length'' := rHeader resp ''X-Object-Sysmeta-Slo-Size'',
                   ''Etag'' := quoted (rHeader resp ''X-Object-Sysmeta-Slo-Etag'')))], st1)"
    using mm q n w1 w2 s1 s2 h by (simp add: ServeHTTP_def Let_def)
  then show ?thesis by simp
qed


theorem C4_head_short_circuit_witness:
  "nextHandler (example_env\<lparr>nextHandler := (\<lambda>st req. (example_head_response, st))\<rparr>)
     example_store
     (updateEtagIsAt (example_request ''HEAD'' ''/v1/a/c/big'') ''X-Object-Sysmeta-Slo-Etag'')
   = (example_head_response, example_store)
   \<and> reqQuery (example_request ''HEAD'' ''/v1/a/c/big'') ''multipart-manifest'' \<noteq> ''get''
   \<and> rHeader example_head_response ''X-Static-Large-Object'' = ''True''
   \<and> (\<exists>hdr. ServeHTTP (example_env\<lparr>nextHandler := (\<lambda>st req. (example_head_response, st))\<rparr>)
               example_store (example_request ''HEAD'' ''/v1/a/c/big'')
         = ([WriteHeader 200 hdr], example_store)
       \<and> hdr ''Content-Length'' = ''12'' \<and> hdr ''Etag'' = quoted ''X'')"
proof -
  let ?env = "example_env\<lparr>nextHandler := (\<lambda>st req. (example_head_response, st))\<rparr>"
  let ?req = "example_request ''HEAD'' ''/v1/a/c/big''"
  have m: "reqMethod ?req = ''HEAD''
         \<or> (reqMethod ?req = ''GET''
             \<and> (reqHeader ?req ''If-Match'' \<noteq> [] \<or> reqHeader ?req ''If-None-Match'' \<noteq> [])
             \<and> (rStatus example_head_response = 304 \<or> rStatus example_head_response = 412))"
    by (simp add: example_defs)
  have q: "reqQuery ?req ''multipart-manifest'' \<noteq> ''get''" by (simp add: example_defs)
  have n: "nextHandler ?env example_store (updateEtagIsAt ?req ''X-Object-Sysmeta-Slo-Etag'')
             = (example_head_response, example_store)"
    by simp
  have h: "rHeader example_head_response ''X-Static-Large-Object'' = ''True''"
    "rHeader example_head_response ''X-Object-Sysmeta-Slo-Etag'' \<noteq> []"
    "rHeader example_head_response ''X-Object-Sysmeta-Slo-Size'' \<noteq> []"
    by (simp_all add: example_defs)
  have v: "rStatus example_head_response = 200"
    "rHeader example_head_response ''X-Object-Sysmeta-Slo-Size'' = ''12''"
    "rHeader example_head_response ''X-Object-Sysmeta-Slo-Etag'' = ''X''"
    by (simp_all add: example_defs)
  from C4_head_short_circuit [OF m q n h] n q h(1) show ?thesis
    unfolding v by simp
qed

lemma putStep_continue:
  assumes "putStep env pathMap st spm ps = (Continue ps', evs, st')" and "errs ps' = []"
  shows "errs ps = []
       \<and> (\<exists>si n. toPutManifest ps' = toPutManifest ps @ [si]
              \<and> totalSize ps' = totalSize ps + n
              \<and> sloEtag ps' = sloEtag ps @ snd (segLenHash (parseRange env) si)
              \<and> put_validated (parseRange env) spm si n)"
  using assms
  by (auto simp: putStep_def Let_def addErr_def put_validated_def
      split: sum.splits prod.splits if_splits list.splits option.splits)


lemma putLoop_events:
  "putLoop env pathMap st manifest ps = (r, evs, st') \<Longrightarrow>
   \<forall>ev\<in>set evs. \<exists>sr. ev = Subrequest sr \<and> srMethod sr = ''HEAD''"
proof (induction manifest arbitrary: st ps r evs st')
  case Nil
  then show ?case by simp
next
  case (Cons x manifest)
  obtain step evs1 st1 where step: "putStep env pathMap st x ps = (step, evs1, st1)"
    by (cases "putStep env pathMap st x ps")
  note f = putStep_facts(2) [OF step]
  show ?case
  proof (cases step)
    case (Continue ps1)
    obtain r2 evs2 st2 where rest: "putLoop env pathMap st1 manifest ps1 = (r2, evs2, st2)"
      by (cases "putLoop env pathMap st1 manifest ps1")
    from Cons.prems step Continue rest have "evs = evs1 @ evs2" by simp
    with Cons.IH [OF rest] f show ?thesis by auto
  next
    case (Break ps1)
    with Cons.prems step f show ?thesis by auto
  next
    case Return
    with Cons.prems step f show ?thesis by auto
  qed
qed

lemma putLoop_success:
  "putLoop env pathMap st manifest ps = (Some ps', evs, st') \<Longrightarrow> errs ps' = [] \<Longrightarrow>
   errs ps = []
   \<and> (\<exists>segs. list_all2 (\<lambda>spm (si, n). put_validated (parseRange env) spm si n) manifest segs
         \<and> toPutManifest ps' = toPutManifest ps @ map fst segs
         \<and> totalSize ps' = totalSize ps + sum_list (map snd segs)
         \<and> sloEtag ps' = sloEtag ps
              @ concat (map (\<lambda>si. snd (segLenHash (parseRange env) si)) (map fst segs)))"
proof (induction manifest arbitrary: st ps evs st')
  case Nil
  then show ?case by simp
next
  case (Cons x manifest)
  obtain step evs1 st1 where step: "putStep env pathMap st x ps = (step, evs1, st1)"
    by (cases "putStep env pathMap st x ps")
  show ?case
  proof (cases step)
    case (Continue ps1)
    obtain r2 evs2 st2 where rest: "putLoop env pathMap st1 manifest ps1 = (r2, evs2, st2)"
      by (cases "putLoop env pathMap st1 manifest ps1")
    from Cons.prems(1) step Continue rest have r2: "r2 = Some ps'" by simp
    from Cons.IH [OF rest [unfolded r2] Cons.prems(2)] obtain segs where
      e1: "errs ps1 = []"
      and a: "list_all2 (\<lambda>spm (si, n). put_validated (parseRange env) spm si n) manifest segs"
      and b: "toPutManifest ps' = toPutManifest ps1 @ map fst segs"
      and c: "totalSize ps' = totalSize ps1 + sum_list (map snd segs)"
      and d: "sloEtag ps' = sloEtag ps1
              @ concat (map (\<lambda>si. snd (segLenHash (parseRange env) si)) (map fst segs))"
      by blast
    from putStep_continue [OF step [unfolded Continue] e1] obtain si n where
      e0: "errs ps = []"
      and a0: "put_validated (parseRange env) x si n"
      and b0: "toPutManifest ps1 = toPutManifest ps @ [si]"
      and c0: "totalSize ps1 = totalSize ps + n"
      and d0: "sloEtag ps1 = sloEtag ps @ snd (segLenHash (parseRange env) si)"
      by blast
    let ?segs = "(si, n) # segs"
    have "list_all2 (\<lambda>spm (si, n). put_validated (parseRange env) spm si n) (x # manifest) ?segs"
      using a a0 by simp
    moreover have "toPutManifest ps' = toPutManifest ps @ map fst ?segs" using b b0 by simp
    moreover have "totalSize ps' = totalSize ps + sum_list (map snd ?segs)"
      using c c0 by (simp add: add.assoc)
    moreover have "sloEtag ps' = sloEtag ps
              @ concat (map (\<lambda>si. snd (segLenHash (parseRange env) si)) (map fst ?segs))"
      using d d0 by simp
    ultimately show ?thesis using e0 by blast
  next
    case (Break ps1)
    with Cons.prems step have "ps' = ps1" by simp
    with putStep_facts(3) [OF step Break] Cons.prems(2) show ?thesis by simp
  next
    case Return
    with Cons.prems step show ?thesis by simp
  qed
qed

lemma handleSloPut_persist:
  assumes "SubrequestToClient q \<in> set (fst (handleSloPut env st req))"
  shows "\<exists>pathMap manifest ps evs st1 ct reply.
           parseProxyPath env (reqPath req) = Inr pathMap
         \<and> parsePutSloManifest (jsonDecoder env (reqBody req)) = (manifest, [])
         \<and> putLoop env pathMap st manifest
              \<lparr>toPutManifest = [], totalSize = 0, sloEtag = [], errs = []\<rparr> = (Some ps, evs, st1)
         \<and> errs ps = []
         \<and> q = putRequest (reqPath req) ct (md5hex env (sloEtag ps)) (totalSize ps)
                 (md5hex env (marshalManifest env (toPutManifest ps)))
                 (marshalManifest env (toPutManifest ps))
         \<and> handleSloPut env st req
             = (evs @ reply @ [SubrequestToClient q], snd (subrequest env st1 q))"
proof -
  from assms obtain pathMap where pp: "parseProxyPath env (reqPath req) = Inr pathMap"
    by (cases "parseProxyPath env (reqPath req)") (auto simp: handleSloPut_def)
  obtain manifest perrs where p: "parsePutSloManifest (jsonDecoder env (reqBody req)) = (manifest, perrs)"
    by (cases "parsePutSloManifest (jsonDecoder env (reqBody req))")
  let ?ps0 = "\<lparr>toPutManifest = [], totalSize = 0, sloEtag = [], errs = perrs\<rparr>"
  obtain r evs st1 where l: "putLoop env pathMap st manifest ?ps0 = (r, evs, st1)"
    by (cases "putLoop env pathMap st manifest ?ps0")
  note ev = putLoop_events [OF l]
  from assms pp p l ev have pe: "perrs = []"
    by (auto simp: handleSloPut_def Let_def split: if_splits)
  from assms pp p l ev pe obtain ps where r: "r = Some ps"
    by (cases r) (auto simp: handleSloPut_def Let_def split: if_splits)
  from assms pp p l ev pe r have e: "errs ps = []"
    by (auto simp: handleSloPut_def Let_def split: if_splits)
  from assms pp p l ev pe r e
  have "\<exists>ct reply. q = putRequest (reqPath req) ct (md5hex env (sloEtag ps)) (totalSize ps)
                 (md5hex env (marshalManifest env (toPutManifest ps)))
                 (marshalManifest env (toPutManifest ps))
         \<and> handleSloPut env st req
             = (evs @ reply @ [SubrequestToClient q], snd (subrequest env st1 q))"
    by (auto simp: handleSloPut_def Let_def split: if_splits prod.splits)
  with pp p l pe r e show ?thesis by blast
qed

lemma genEtagLen_eq:
  "genEtagLen pr manifest (n, w) =
     (n + sum_list (map (\<lambda>si. fst (segLenHash pr si)) manifest),
      w @ concat (map (\<lambda>si. snd (segLenHash pr si)) manifest))"
  by (induction manifest arbitrary: n w) (simp_all add: case_prod_beta add.assoc)

lemma segLenHash_token: "snd (segLenHash pr si) = hash_token si"
  by (simp add: segLenHash_def hash_token_def Let_def)

lemma segLenHash_spec:
  "spec_contribution pr si = Some c \<Longrightarrow> segLenHash pr si = c"
  by (auto simp: spec_contribution_def segLenHash_def makeRange_def Let_def
      split: if_splits sum.splits list.splits)

lemma byteFeeder_generated:
  assumes "savedEtag = [] \<or> savedLength = [] \<or> snd (ParseInt savedLength) \<noteq> None"
    and "reqHeader req ''Range'' = []"
  shows "\<exists>hdr. byteFeeder env st sw req savedEtag savedLength manifest
             = (WriteHeader 200 hdr
                  # fst (feedOutSegments env st req manifest
                          \<lparr>Start = 0,
                           End = sum_list (map (\<lambda>si. fst (segLenHash (parseRange env) si)) manifest)\<rparr>),
                snd (feedOutSegments env st req manifest
                       \<lparr>Start = 0,
                        End = sum_list (map (\<lambda>si. fst (segLenHash (parseRange env) si)) manifest)\<rparr>))
         \<and> hdr ''Etag'' = quoted (md5hex env (concat (map hash_token manifest)))
         \<and> hdr ''Content-Length'' =
             FormatInt (sum_list (map (\<lambda>si. fst (segLenHash (parseRange env) si)) manifest))"
  using assms
  by (auto simp: byteFeeder_def Let_def genEtagLen_eq segLenHash_token
      split: prod.splits option.splits)

lemma byteFeeder_ranged:
  assumes "savedEtag = [] \<or> savedLength = [] \<or> snd (ParseInt savedLength) \<noteq> None"
    and "reqHeader req ''Range'' \<noteq> []"
    and "parseRange env (reqHeader req ''Range'')
           (sum_list (map (\<lambda>si. fst (segLenHash (parseRange env) si)) manifest)) = Inr [r]"
  shows "\<exists>hdr. byteFeeder env st sw req savedEtag savedLength manifest
             = (WriteHeader 200 hdr # fst (feedOutSegments env st req manifest r),
                snd (feedOutSegments env st req manifest r))
         \<and> hdr ''Etag'' = quoted (md5hex env (concat (map hash_token manifest)))
         \<and> hdr ''Content-Length'' = FormatInt (End r - Start r)"
  using assms
  by (auto simp: byteFeeder_def Let_def genEtagLen_eq segLenHash_token
      split: prod.splits option.splits)

text \<open>
  C2. The combined SLO etag is the hex MD5 of the hash tokens concatenated in
  manifest order, and the total size is the sum of the contribution lengths.
  A segment's token is its hash, or \<open><hash>:<range>;\<close> when it has a range;
  its length is \<open>bytes\<close>, or \<open>end - start\<close> of the parsed range. In the byte
  feeder, whenever the saved etag or size is missing or unreadable, the
  \<open>Etag\<close> sent is that digest (quoted), the \<open>Content-Length\<close> without a
  \<open>Range\<close> header is that sum, and with a \<open>Range\<close> header the sum is the
  size the range is parsed against. On PUT, whenever the manifest is
  persisted, \<open>X-Object-Sysmeta-Slo-Etag\<close> is that digest over the persisted
  segments and \<open>X-Object-Sysmeta-Slo-Size\<close> the sum of the contributions of
  the client's entries, each validated against its segment; the PUT is the
  last event and the backend is left as that subrequest leaves it.
\<close>

theorem C2_combined_etag_and_size:
  "(snd (segLenHash (parseRange env) si) = hash_token si
    \<and> (\<forall>c. spec_contribution (parseRange env) si = Some c \<longrightarrow> segLenHash (parseRange env) si = c))
   \<and> ((savedEtag = [] \<or> savedLength = [] \<or> snd (ParseInt savedLength) \<noteq> None)
       \<and> reqHeader req ''Range'' = []
       \<longrightarrow> (\<exists>hdr. byteFeeder env st sw req savedEtag savedLength manifest
                 = (WriteHeader 200 hdr
                      # fst (feedOutSegments env st req manifest
                              \<lparr>Start = 0,
                               End = sum_list (map (\<lambda>si. fst (segLenHash (parseRange env) si))
                                                manifest)\<rparr>),
                    snd (feedOutSegments env st req manifest
                           \<lparr>Start = 0,
                            End = sum_list (map (\<lambda>si. fst (segLenHash (parseRange env) si))
                                             manifest)\<rparr>))
              \<and> hdr ''Etag'' = quoted (md5hex env (concat (map hash_token manifest)))
              \<and> hdr ''Content-Length'' =
                  FormatInt (sum_list (map (\<lambda>si. fst (segLenHash (parseRange env) si)) manifest))))
   \<and> ((savedEtag = [] \<or> savedLength = [] \<or> snd (ParseInt savedLength) \<noteq> None)
       \<and> reqHeader rreq ''Range'' \<noteq> []
       \<and> parseRange env (reqHeader rreq ''Range'')
             (sum_list (map (\<lambda>si. fst (segLenHash (parseRange env) si)) manifest)) = Inr [r]
       \<longrightarrow> (\<exists>hdr. byteFeeder env st sw rreq savedEtag savedLength manifest
                 = (WriteHeader 200 hdr # fst (feedOutSegments env st rreq manifest r),
                    snd (feedOutSegments env st rreq manifest r))
              \<and> hdr ''Etag'' = quoted (md5hex env (concat (map hash_token manifest)))
              \<and> hdr ''Content-Length'' = FormatInt (End r - Start r)))
   \<and> (SubrequestToClient q \<in> set (fst (handleSloPut env st preq))
       \<longrightarrow> (\<exists>segs pathMap ps evs st1 reply.
                list_all2 (\<lambda>spm (si, n). put_validated (parseRange env) spm si n)
                      (fst (parsePutSloManifest (jsonDecoder env (reqBody preq)))) segs
              \<and> srBody q = marshalManifest env (map fst segs)
              \<and> srHeader q ''X-Object-Sysmeta-Slo-Etag''
                  = md5hex env (concat (map hash_token (map fst segs)))
              \<and> srHeader q ''X-Object-Sysmeta-Slo-Size'' = FormatInt (sum_list (map snd segs))
              \<and> parseProxyPath env (reqPath preq) = Inr pathMap
              \<and> putLoop env pathMap st (fst (parsePutSloManifest (jsonDecoder env (reqBody preq))))
                   \<lparr>toPutManifest = [], totalSize = 0, sloEtag = [], errs = []\<rparr>
                  = (Some ps, evs, st1)
              \<and> handleSloPut env st preq
                  = (evs @ reply @ [SubrequestToClient q], snd (subrequest env st1 q))))"
proof (intro conjI impI allI)
  show "snd (segLenHash (parseRange env) si) = hash_token si" by (rule segLenHash_token)
next
  fix c assume "spec_contribution (parseRange env) si = Some c"
  then show "segLenHash (parseRange env) si = c" by (rule segLenHash_spec)
next
  assume "(savedEtag = [] \<or> savedLength = [] \<or> snd (ParseInt savedLength) \<noteq> None)
       \<and> reqHeader req ''Range'' = []"
  then have a1: "savedEtag = [] \<or> savedLength = [] \<or> snd (ParseInt savedLength) \<noteq> None"
    and a2: "reqHeader req ''Range'' = []" by blast+
  show "\<exists>hdr. byteFeeder env st sw req savedEtag savedLength manifest
                 = (WriteHeader 200 hdr
                      # fst (feedOutSegments env st req manifest
                              \<lparr>Start = 0,
                               End = sum_list (map (\<lambda>si. fst (segLenHash (parseRange env) si))
                                                manifest)\<rparr>),
                    snd (feedOutSegments env st req manifest
                           \<lparr>Start = 0,
                            End = sum_list (map (\<lambda>si. fst (segLenHash (parseRange env) si))
                                             manifest)\<rparr>))
              \<and> hdr ''Etag'' = quoted (md5hex env (concat (map hash_token manifest)))
              \<and> hdr ''Content-Length'' =
                  FormatInt (sum_list (map (\<lambda>si. fst (segLenHash (parseRange env) si)) manifest))"
    by (rule byteFeeder_generated [OF a1 a2])
next
  assume "(savedEtag = [] \<or> savedLength = [] \<or> snd (ParseInt savedLength) \<noteq> None)
       \<and> reqHeader rreq ''Range'' \<noteq> []
       \<and> parseRange env (reqHeader rreq ''Range'')
             (sum_list (map (\<lambda>si. fst (segLenHash (parseRange env) si)) manifest)) = Inr [r]"
  then have a1: "savedEtag = [] \<or> savedLength = [] \<or> snd (ParseInt savedLength) \<noteq> None"
    and a2: "reqHeader rreq ''Range'' \<noteq> []"
    and a3: "parseRange env (reqHeader rreq ''Range'')
             (sum_list (map (\<lambda>si. fst (segLenHash (parseRange env) si)) manifest)) = Inr [r]"
    by blast+
  show "\<exists>hdr. byteFeeder env st sw rreq savedEtag savedLength manifest
                 = (WriteHeader 200 hdr # fst (feedOutSegments env st rreq manifest r),
                    snd (feedOutSegments env st rreq manifest r))
              \<and> hdr ''Etag'' = quoted (md5hex env (concat (map hash_token manifest)))
              \<and> hdr ''Content-Length'' = FormatInt (End r - Start r)"
    by (rule byteFeeder_ranged [OF a1 a2 a3])
next
  assume "SubrequestToClient q \<in> set (fst (handleSloPut env st preq))"
  from handleSloPut_persist [OF this] obtain pathMap cm ps evs st1 ct reply where
    pp: "parseProxyPath env (reqPath preq) = Inr pathMap"
    and p: "parsePutSloManifest (jsonDecoder env (reqBody preq)) = (cm, [])"
    and l: "putLoop env pathMap st cm
              \<lparr>toPutManifest = [], totalSize = 0, sloEtag = [], errs = []\<rparr> = (Some ps, evs, st1)"
    and e: "errs ps = []"
    and q: "q = putRequest (reqPath preq) ct (md5hex env (sloEtag ps)) (totalSize ps)
                 (md5hex env (marshalManifest env (toPutManifest ps)))
                 (marshalManifest env (toPutManifest ps))"
    and h: "handleSloPut env st preq
             = (evs @ reply @ [SubrequestToClient q], snd (subrequest env st1 q))"
    by (elim exE conjE)
  from putLoop_success [OF l e] obtain segs where
    a: "list_all2 (\<lambda>spm (si, n). put_validated (parseRange env) spm si n) cm segs"
    and b: "toPutManifest ps = map fst segs"
    and c: "totalSize ps = sum_list (map snd segs)"
    and d: "sloEtag ps = concat (map (\<lambda>si. snd (segLenHash (parseRange env) si)) (map fst segs))"
    by (elim exE conjE) simp
  have d': "sloEtag ps = concat (map hash_token (map fst segs))"
    unfolding d by (simp add: segLenHash_token)
  have q1: "srBody q = marshalManifest env (map fst segs)"
    and q2: "srHeader q ''X-Object-Sysmeta-Slo-Etag''
               = md5hex env (concat (map hash_token (map fst segs)))"
    and q3: "srHeader q ''X-Object-Sysmeta-Slo-Size'' = FormatInt (sum_list (map snd segs))"
    unfolding q using b c d' by (simp_all add: putRequest_def newRequest_def)
  have cm: "fst (parsePutSloManifest (jsonDecoder env (reqBody preq))) = cm" by (simp add: p)
  from a q1 q2 q3 pp l h
  show "\<exists>segs pathMap ps evs st1 reply.
                list_all2 (\<lambda>spm (si, n). put_validated (parseRange env) spm si n)
                      (fst (parsePutSloManifest (jsonDecoder env (reqBody preq)))) segs
              \<and> srBody q = marshalManifest env (map fst segs)
              \<and> srHeader q ''X-Object-Sysmeta-Slo-Etag''
                  = md5hex env (concat (map hash_token (map fst segs)))
              \<and> srHeader q ''X-Object-Sysmeta-Slo-Size'' = FormatInt (sum_list (map snd segs))
              \<and> parseProxyPath env (reqPath preq) = Inr pathMap
              \<and> putLoop env pathMap st (fst (parsePutSloManifest (jsonDecoder env (reqBody preq))))
                   \<lparr>toPutManifest = [], totalSize = 0, sloEtag = [], errs = []\<rparr>
                  = (Some ps, evs, st1)
              \<and> handleSloPut env st preq
                  = (evs @ reply @ [SubrequestToClient q], snd (subrequest env st1 q))"
    unfolding cm by blast
qed


theorem C2_combined_etag_and_size_witness:
  "spec_contribution (parseRange example_env) (example_seg ''c/s1'' ''e1'' 5 []) = Some (5, ''e1'')
   \<and> segLenHash (parseRange example_env) (example_seg ''c/s1'' ''e1'' 5 []) = (5, ''e1'')
   \<and> reqHeader (example_request ''GET'' ''/v1/a/c/big'') ''Range'' = []
   \<and> (\<exists>hdr. byteFeeder example_env example_store
                  \<lparr>wHeader = no_header, funcName = [], status = 200, isSlo = True,
                   isDlo = False, body = ''[manifest]''\<rparr>
                  (example_request ''GET'' ''/v1/a/c/big'') [] [] example_manifest
             = (WriteHeader 200 hdr
                  # fst (feedOutSegments example_env example_store
                          (example_request ''GET'' ''/v1/a/c/big'') example_manifest
                          \<lparr>Start = 0, End = 12\<rparr>),
                snd (feedOutSegments example_env example_store
                       (example_request ''GET'' ''/v1/a/c/big'') example_manifest
                       \<lparr>Start = 0, End = 12\<rparr>))
          \<and> hdr ''Etag'' = quoted ''md5(e1e2)'' \<and> hdr ''Content-Length'' = ''12'')
   \<and> parseRange example_env ''bytes=3-8'' 12 = Inr [\<lparr>Start = 3, End = 9\<rparr>]
   \<and> (\<exists>hdr. byteFeeder example_env example_store
                  \<lparr>wHeader = no_header, funcName = [], status = 200, isSlo = True,
                   isDlo = False, body = ''[manifest]''\<rparr>
                  ((example_request ''GET'' ''/v1/a/c/big'')
                     \<lparr>reqHeader := no_header(''Range'' := ''bytes=3-8'')\<rparr>)
                  [] [] example_manifest
             = (WriteHeader 200 hdr
                  # fst (feedOutSegments example_env example_store
                          ((example_request ''GET'' ''/v1/a/c/big'')
                             \<lparr>reqHeader := no_header(''Range'' := ''bytes=3-8'')\<rparr>)
                          example_manifest \<lparr>Start = 3, End = 9\<rparr>),
                snd (feedOutSegments example_env example_store
                       ((example_request ''GET'' ''/v1/a/c/big'')
                          \<lparr>reqHeader := no_header(''Range'' := ''bytes=3-8'')\<rparr>)
                       example_manifest \<lparr>Start = 3, End = 9\<rparr>))
          \<and> hdr ''Etag'' = quoted ''md5(e1e2)'' \<and> hdr ''Content-Length'' = ''6'')
   \<and> SubrequestToClient
        (putRequest ''/v1/a/c/big'' ''application/octet-stream'' ''md5(e1e2)'' 12
           ''md5([/c/s1/c/s2])'' ''[/c/s1/c/s2]'')
       \<in> set (fst (handleSloPut example_env example_store
                 ((example_request ''PUT'' ''/v1/a/c/big'')
                    \<lparr>reqHeader := no_header(''Content-Length'' := ''17''),
                     reqBody := ''[client manifest]''\<rparr>)))
   \<and> (\<exists>segs pathMap ps evs st1 reply.
          list_all2 (\<lambda>spm (si, n). put_validated (parseRange example_env) spm si n)
                 example_put_manifest segs
          \<and> ''[/c/s1/c/s2]'' = marshalManifest example_env (map fst segs)
          \<and> ''md5(e1e2)'' = md5hex example_env (concat (map hash_token (map fst segs)))
          \<and> ''12'' = FormatInt (sum_list (map snd segs))
          \<and> parseProxyPath example_env ''/v1/a/c/big'' = Inr pathMap
          \<and> putLoop example_env pathMap example_store example_put_manifest
               \<lparr>toPutManifest = [], totalSize = 0, sloEtag = [], errs = []\<rparr>
              = (Some ps, evs, st1)
          \<and> handleSloPut example_env example_store
               ((example_request ''PUT'' ''/v1/a/c/big'')
                  \<lparr>reqHeader := no_header(''Content-Length'' := ''17''),
                   reqBody := ''[client manifest]''\<rparr>)
              = (evs @ reply
                 @ [SubrequestToClient
                      (putRequest ''/v1/a/c/big'' ''application/octet-stream'' ''md5(e1e2)'' 12
                         ''md5([/c/s1/c/s2])'' ''[/c/s1/c/s2]'')],
                 snd (subrequest example_env st1
                        (putRequest ''/v1/a/c/big'' ''application/octet-stream'' ''md5(e1e2)'' 12
                           ''md5([/c/s1/c/s2])'' ''[/c/s1/c/s2]''))))"
proof -
  let ?si = "example_seg ''c/s1'' ''e1'' 5 []"
  let ?sw = "\<lparr>wHeader = no_header, funcName = [], status = 200, isSlo = True,
              isDlo = False, body = ''[manifest]''\<rparr>"
  let ?req = "example_request ''GET'' ''/v1/a/c/big''"
  let ?preq = "(example_request ''PUT'' ''/v1/a/c/big'')
                 \<lparr>reqHeader := no_header(''Content-Length'' := ''17''),
                  reqBody := ''[client manifest]''\<rparr>"
  let ?q = "putRequest ''/v1/a/c/big'' ''application/octet-stream'' ''md5(e1e2)'' 12
              ''md5([/c/s1/c/s2])'' ''[/c/s1/c/s2]''"
  let ?rreq = "(example_request ''GET'' ''/v1/a/c/big'')
                 \<lparr>reqHeader := no_header(''Range'' := ''bytes=3-8'')\<rparr>"
  note inst = C2_combined_etag_and_size
    [where env = example_env and si = "?si" and savedEtag = "[]"
       and savedLength = "[]" and req = "?req" and st = example_store and sw = "?sw"
       and manifest = example_manifest and q = "?q" and preq = "?preq"
       and rreq = "?rreq" and r = "\<lparr>Start = 3, End = 9\<rparr>"]
  have s: "spec_contribution (parseRange example_env) ?si = Some (5, ''e1'')"
    by (simp add: spec_contribution_def example_defs)
  have r: "reqHeader ?req ''Range'' = []" by (simp add: example_defs)
  have e: "md5hex example_env (concat (map hash_token example_manifest)) = ''md5(e1e2)''"
    by (simp add: hash_token_def example_defs)
  have t: "sum_list (map (\<lambda>si. fst (segLenHash (parseRange example_env) si)) example_manifest) = 12"
    by (simp add: segLenHash_def example_defs)
  have n: "FormatInt 12 = ''12''" by (simp add: FormatInt_def fmt_int_def)
  have ev: "fst (handleSloPut example_env example_store ?preq)
     = [Subrequest (newRequest ''HEAD'' ''/v1/a/c/s1'' []),
        Subrequest (newRequest ''HEAD'' ''/v1/a/c/s2'' []),
        SubrequestToClient ?q]"
    by (simp add: handleSloPut_def parsePutSloManifest_def maxManifestLen_def putStep_def
        splitSegPath_def ParseInt_def is_digit_def dec_val_def digit_val_def fmt_int_def
        trim_quotes_def segLenHash_def addErr_def putRequest_def word_sless_alt example_defs)
  have m: "SubrequestToClient ?q \<in> set (fst (handleSloPut example_env example_store ?preq))"
    unfolding ev by simp
  have cm: "fst (parsePutSloManifest (jsonDecoder example_env (reqBody ?preq))) = example_put_manifest"
    by (simp add: parsePutSloManifest_def maxManifestLen_def word_sless_alt example_defs)
  have rp: "reqPath ?preq = ''/v1/a/c/big''" by (simp add: example_defs)
  have qh: "srBody ?q = ''[/c/s1/c/s2]''" "srHeader ?q ''X-Object-Sysmeta-Slo-Etag'' = ''md5(e1e2)''"
    "srHeader ?q ''X-Object-Sysmeta-Slo-Size'' = ''12''"
    by (simp_all add: putRequest_def newRequest_def FormatInt_def fmt_int_def)
  from inst s have c1: "segLenHash (parseRange example_env) ?si = (5, ''e1'')" by blast
  from inst r have c2: "\<exists>hdr. byteFeeder example_env example_store ?sw ?req [] [] example_manifest
             = (WriteHeader 200 hdr
                  # fst (feedOutSegments example_env example_store ?req example_manifest
                          \<lparr>Start = 0, End = 12\<rparr>),
                snd (feedOutSegments example_env example_store ?req example_manifest
                       \<lparr>Start = 0, End = 12\<rparr>))
          \<and> hdr ''Etag'' = quoted ''md5(e1e2)'' \<and> hdr ''Content-Length'' = ''12''"
    unfolding e t n by blast
  have rr: "reqHeader ?rreq ''Range'' = ''bytes=3-8''" by (simp add: example_defs)
  have pr: "parseRange example_env ''bytes=3-8'' 12 = Inr [\<lparr>Start = 3, End = 9\<rparr>]"
    by (simp add: example_parseRange_def is_digit_def dec_val_def digit_val_def example_defs)
  have n6: "FormatInt (End \<lparr>Start = 3, End = 9\<rparr> - Start \<lparr>Start = 3, End = 9\<rparr>) = ''6''"
    by (simp add: FormatInt_def fmt_int_def)
  from inst pr have c2r: "\<exists>hdr. byteFeeder example_env example_store ?sw ?rreq [] [] example_manifest
             = (WriteHeader 200 hdr
                  # fst (feedOutSegments example_env example_store ?rreq example_manifest
                          \<lparr>Start = 3, End = 9\<rparr>),
                snd (feedOutSegments example_env example_store ?rreq example_manifest
                       \<lparr>Start = 3, End = 9\<rparr>))
          \<and> hdr ''Etag'' = quoted ''md5(e1e2)'' \<and> hdr ''Content-Length'' = ''6''"
    unfolding e t n6 rr by simp
  from inst m have c3: "\<exists>segs pathMap ps evs st1 reply.
          list_all2 (\<lambda>spm (si, n). put_validated (parseRange example_env) spm si n)
                 example_put_manifest segs
          \<and> ''[/c/s1/c/s2]'' = marshalManifest example_env (map fst segs)
          \<and> ''md5(e1e2)'' = md5hex example_env (concat (map hash_token (map fst segs)))
          \<and> ''12'' = FormatInt (sum_list (map snd segs))
          \<and> parseProxyPath example_env ''/v1/a/c/big'' = Inr pathMap
          \<and> putLoop example_env pathMap example_store example_put_manifest
               \<lparr>toPutManifest = [], totalSize = 0, sloEtag = [], errs = []\<rparr>
              = (Some ps, evs, st1)
          \<and> handleSloPut example_env example_store ?preq
              = (evs @ reply @ [SubrequestToClient ?q], snd (subrequest example_env st1 ?q))"
    unfolding cm qh rp by blast
  from s c1 r c2 pr c2r m c3 show ?thesis by (intro conjI)
qed

subsection \<open>C1: the bytes served for a range\<close>


lemma sint_add64:
  fixes a b :: int64
  assumes "- (2 ^ 63) \<le> sint a + sint b" "sint a + sint b < 2 ^ 63"
  shows "sint (a + b) = sint a + sint b"
  using assms by (simp add: sint_word_ariths signed_take_bit_int_eq_self)



















end
